theory Spec2Isabelle
  imports Main
begin

section \<open>Strings of the Go program\<close>

text \<open>
  A Go string is a sequence of bytes; \<^typ>\<open>string\<close> (a list of 8-bit characters) is
  that sequence, and \<^const>\<open>length\<close> is Go's \<open>len\<close>.  An \<open>error\<close> value is
  represented by its message; \<open>fmt.Errorf\<close> with \<open>%w\<close>, \<open>%v\<close> or \<open>%s\<close> is
  concatenation of messages.
\<close>

definition isDigit :: "char \<Rightarrow> bool" where
  "isDigit c = (c \<in> set ''0123456789'')"

text \<open>
  The encodings (UTF-8) of the code points for which Go's \<open>unicode.IsSpace\<close> holds:
  the six ASCII ones, U+0085, U+00A0, U+1680, U+2000 to U+200A, U+2028, U+2029, U+202F,
  U+205F and U+3000.  \<open>strings.TrimSpace\<close> removes every leading and then every
  trailing code point of this table; the decoder accepts only these shortest encodings,
  so comparing bytes is the same as decoding.
\<close>

definition spaceEncodings :: "string list" where
  "spaceEncodings =
    [[CHR 0x09], [CHR 0x0A], [CHR 0x0B], [CHR 0x0C], [CHR 0x0D], [CHR 0x20],
     [CHR 0xC2, CHR 0x85], [CHR 0xC2, CHR 0xA0],
     [CHR 0xE1, CHR 0x9A, CHR 0x80],
     [CHR 0xE2, CHR 0x80, CHR 0x80], [CHR 0xE2, CHR 0x80, CHR 0x81],
     [CHR 0xE2, CHR 0x80, CHR 0x82], [CHR 0xE2, CHR 0x80, CHR 0x83],
     [CHR 0xE2, CHR 0x80, CHR 0x84], [CHR 0xE2, CHR 0x80, CHR 0x85],
     [CHR 0xE2, CHR 0x80, CHR 0x86], [CHR 0xE2, CHR 0x80, CHR 0x87],
     [CHR 0xE2, CHR 0x80, CHR 0x88], [CHR 0xE2, CHR 0x80, CHR 0x89],
     [CHR 0xE2, CHR 0x80, CHR 0x8A],
     [CHR 0xE2, CHR 0x80, CHR 0xA8], [CHR 0xE2, CHR 0x80, CHR 0xA9],
     [CHR 0xE2, CHR 0x80, CHR 0xAF],
     [CHR 0xE2, CHR 0x81, CHR 0x9F],
     [CHR 0xE3, CHR 0x80, CHR 0x80]]"

function stripLeading :: "string list \<Rightarrow> string \<Rightarrow> string" where
  "stripLeading encs s =
     (case find (\<lambda>e. e \<noteq> [] \<and> take (length e) s = e) encs of
        None \<Rightarrow> s
      | Some e \<Rightarrow> stripLeading encs (drop (length e) s))"
  by pat_completeness auto
termination
proof (relation "measure (\<lambda>(encs, s). length s)")
  show "wf (measure (\<lambda>(encs, s). length s))" by simp
next
  fix encs :: "string list" and s e :: string
  assume "find (\<lambda>e. e \<noteq> [] \<and> take (length e) s = e) encs = Some e"
  then have e: "e \<noteq> []" "take (length e) s = e"
    by (auto simp: find_Some_iff)
  then have "s \<noteq> []" by auto
  with e show "((encs, drop (length e) s), (encs, s)) \<in> measure (\<lambda>(encs, s). length s)"
    by simp
qed

declare stripLeading.simps [simp del]

definition TrimSpace :: "string \<Rightarrow> string" where
  "TrimSpace s =
     rev (stripLeading (map rev spaceEncodings) (rev (stripLeading spaceEncodings s)))"

section \<open>Migration data\<close>

record MigrationConfig =
  SourceWorkspaceName :: string
  SourceProjectName :: string
  TargetWorkspaceName :: string
  ClientMapping :: "(string \<rightharpoonup> string) option"
  DefaultClientName :: string
  DryRun :: bool
  BatchSize :: int
  SkipExisting :: bool
  CreateClients :: bool

record ProjectTaskMapping =
  OriginalTaskName :: string
  ProjectName :: string
  TaskNumber :: string
  NewTaskName :: string
  ClientName :: string

section \<open>The task-name parser\<close>

text \<open>
  \<open>FindStringSubmatch\<close> of the regular expression \<open>^(.+)/TASK(\d+)$\<close>: the two
  groups when the whole string matches, nothing otherwise.  The second group is a
  run of ASCII digits that ends the string; the character before it is \<open>K\<close>, so it is
  the longest such run, and the first group is what precedes \<open>/TASK\<close>.  The dot does
  not match a line feed, and the first group is not empty.
\<close>

definition FindStringSubmatch :: "string \<Rightarrow> (string \<times> string) option" where
  "FindStringSubmatch s =
     (let d = rev (takeWhile isDigit (rev s));
          r = take (length s - length d) s;
          p = take (length r - 5) r
      in if d \<noteq> [] \<and> drop (length r - 5) r = ''/TASK'' \<and> p \<noteq> [] \<and> CHR 0x0A \<notin> set p
         then Some (p, d) else None)"

text \<open>The verb \<open>'%s'\<close> of the format strings: the string between apostrophes.\<close>

definition quoted :: "string \<Rightarrow> string" where
  "quoted s = [CHR 0x27] @ s @ [CHR 0x27]"

definition ParseTaskName :: "MigrationConfig \<Rightarrow> string \<Rightarrow> string + ProjectTaskMapping" where
  "ParseTaskName cfg taskName =
     (case FindStringSubmatch taskName of
        None \<Rightarrow> Inl (''task name '' @ quoted taskName @ '' does not match expected format '' @
                     quoted ''<project>/TASK<number>'')
      | Some (g1, g2) \<Rightarrow>
          (let projectName = TrimSpace g1;
               taskNumber = g2;
               newTaskName = ''TASK '' @ taskNumber;
               clientName =
                 (case ClientMapping cfg of
                    Some mapping \<Rightarrow>
                      (case mapping projectName of
                         Some mappedClient \<Rightarrow> mappedClient
                       | None \<Rightarrow> DefaultClientName cfg)
                  | None \<Rightarrow>
                      if CreateClients cfg then projectName @ '' Client''
                      else DefaultClientName cfg)
           in Inr \<lparr>OriginalTaskName = taskName, ProjectName = projectName,
                   TaskNumber = taskNumber, NewTaskName = newTaskName,
                   ClientName = clientName\<rparr>))"

section \<open>Entities of the time-tracking service\<close>

text \<open>
  An instant (\<open>time.Time\<close>) is a number; the zero instant is \<open>0\<close>.  A pointer field
  that may be \<open>nil\<close> is an \<open>option\<close>.
\<close>

type_synonym Time = int

record Workspace =
  Workspace_ID :: string
  Workspace_Name :: string

record Client =
  Client_ID :: string
  Client_Name :: string
  Client_WorkspaceID :: string
  Client_Archived :: bool
  Client_Note :: string

record User =
  User_ID :: string
  User_Email :: string
  User_Name :: string
  User_ProfilePicture :: string
  User_ActiveWorkspace :: string
  User_DefaultWorkspace :: string
  User_Status :: string

record Tag =
  Tag_ID :: string
  Tag_Name :: string
  Tag_WorkspaceID :: string
  Tag_Archived :: bool

record Project =
  Project_ID :: string
  Project_Name :: string
  Project_ClientID :: string
  Project_ClientName :: string
  Project_WorkspaceID :: string
  Project_Billable :: bool
  Project_Public :: bool
  Project_Archived :: bool
  Project_Color :: string
  Project_Note :: string

record Task =
  Task_ID :: string
  Task_Name :: string
  Task_ProjectID :: string
  Task_Status :: string
  Task_Estimate :: string

record TimeInterval =
  Interval_Start :: Time
  Interval_End :: "Time option"
  Interval_Duration :: string

record TimeEntry =
  TimeEntry_ID :: string
  TimeEntry_Description :: string
  TimeEntry_TagIDs :: "string list"
  TimeEntry_UserID :: string
  TimeEntry_Billable :: bool
  TimeEntry_TaskID :: string
  TimeEntry_ProjectID :: string
  TimeEntry_TimeInterval :: "TimeInterval option"
  TimeEntry_WorkspaceID :: string
  TimeEntry_IsLocked :: bool

record NewTimeEntryRequest =
  Request_Start :: Time
  Request_End :: "Time option"
  Request_Billable :: bool
  Request_Description :: string
  Request_ProjectID :: string
  Request_TaskID :: string
  Request_TagIDs :: "string list"

type_synonym WebhookTriggerSourceType = string
type_synonym WebhookEvent = string

record WebhookRequest =
  WebhookRequest_Name :: string
  WebhookRequest_TriggerSource :: "WebhookTriggerSourceType list"
  WebhookRequest_TriggerSourceType :: WebhookTriggerSourceType
  WebhookRequest_TargetURL :: string
  WebhookRequest_Event :: WebhookEvent

record Webhook =
  Webhook_AuthToken :: string
  Webhook_Enabled :: bool
  Webhook_ID :: string
  Webhook_Name :: string
  Webhook_TriggerSource :: "WebhookTriggerSourceType list"
  Webhook_TriggerSourceType :: WebhookTriggerSourceType
  Webhook_TargetURL :: string
  Webhook_UserID :: string
  Webhook_Event :: WebhookEvent
  Webhook_WorkspaceID :: string

section \<open>The remote service and the API client\<close>

text \<open>
  Every request the client sends is recorded, oldest first; the record of requests
  stands for the \<open>APIClient\<close> that the services hold.  The remote service is any
  deterministic responder: each answer may depend on all requests received before.
  Its listings are finite: beyond \<open>pageLimit\<close> every page is empty.
\<close>

datatype call =
    GetCurrentUserCall
  | GetWorkspacesCall
  | GetProjectsCall string nat
  | GetClientsCall string nat
  | GetProjectTasksCall string string nat
  | GetTimeEntriesCall string string nat
  | CreateClientCall string string
  | CreateProjectCall string string
  | CreateTaskCall string string string
  | CreateTimeEntryForUserCall string string NewTimeEntryRequest
  | CreateWebhookCall string WebhookRequest
  | DeleteWebhookCall string string

type_synonym APIClient = "call list"

record remote =
  pageLimit :: nat
  onGetCurrentUser :: "call list \<Rightarrow> string + User"
  onGetWorkspaces :: "call list \<Rightarrow> string + Workspace list"
  onGetProjects :: "call list \<Rightarrow> string \<Rightarrow> nat \<Rightarrow> string + Project list"
  onGetClients :: "call list \<Rightarrow> string \<Rightarrow> nat \<Rightarrow> string + Client list"
  onGetProjectTasks :: "call list \<Rightarrow> string \<Rightarrow> string \<Rightarrow> nat \<Rightarrow> string + Task list"
  onGetTimeEntries :: "call list \<Rightarrow> string \<Rightarrow> string \<Rightarrow> nat \<Rightarrow> string + TimeEntry list"
  onCreateClient :: "call list \<Rightarrow> string \<Rightarrow> string \<Rightarrow> string + Client"
  onCreateProject :: "call list \<Rightarrow> string \<Rightarrow> string \<Rightarrow> string + Project"
  onCreateTask :: "call list \<Rightarrow> string \<Rightarrow> string \<Rightarrow> string \<Rightarrow> string + Task"
  onCreateTimeEntryForUser ::
    "call list \<Rightarrow> string \<Rightarrow> string \<Rightarrow> NewTimeEntryRequest \<Rightarrow> string + TimeEntry"
  onCreateWebhook :: "call list \<Rightarrow> string \<Rightarrow> WebhookRequest \<Rightarrow> string + Webhook"
  onDeleteWebhook :: "call list \<Rightarrow> string \<Rightarrow> string \<Rightarrow> string option"

definition isCreateOrDelete :: "call \<Rightarrow> bool" where
  "isCreateOrDelete k =
     (case k of
        CreateClientCall _ _ \<Rightarrow> True
      | CreateProjectCall _ _ \<Rightarrow> True
      | CreateTaskCall _ _ _ \<Rightarrow> True
      | CreateTimeEntryForUserCall _ _ _ \<Rightarrow> True
      | CreateWebhookCall _ _ \<Rightarrow> True
      | DeleteWebhookCall _ _ \<Rightarrow> True
      | _ \<Rightarrow> False)"

definition GetCurrentUser :: "remote \<Rightarrow> APIClient \<Rightarrow> (string + User) \<times> APIClient" where
  "GetCurrentUser srv c = (onGetCurrentUser srv c, c @ [GetCurrentUserCall])"

definition GetWorkspaces :: "remote \<Rightarrow> APIClient \<Rightarrow> (string + Workspace list) \<times> APIClient" where
  "GetWorkspaces srv c = (onGetWorkspaces srv c, c @ [GetWorkspacesCall])"

definition CreateClient ::
  "remote \<Rightarrow> string \<Rightarrow> string \<Rightarrow> APIClient \<Rightarrow> (string + Client) \<times> APIClient" where
  "CreateClient srv workspaceID name c =
     (onCreateClient srv c workspaceID name, c @ [CreateClientCall workspaceID name])"

definition CreateProject ::
  "remote \<Rightarrow> string \<Rightarrow> string \<Rightarrow> APIClient \<Rightarrow> (string + Project) \<times> APIClient" where
  "CreateProject srv workspaceID name c =
     (onCreateProject srv c workspaceID name, c @ [CreateProjectCall workspaceID name])"

definition CreateTask ::
  "remote \<Rightarrow> string \<Rightarrow> string \<Rightarrow> string \<Rightarrow> APIClient \<Rightarrow> (string + Task) \<times> APIClient" where
  "CreateTask srv workspaceID projectID name c =
     (onCreateTask srv c workspaceID projectID name,
      c @ [CreateTaskCall workspaceID projectID name])"

definition CreateTimeEntryForUser ::
  "remote \<Rightarrow> string \<Rightarrow> string \<Rightarrow> NewTimeEntryRequest \<Rightarrow> APIClient
     \<Rightarrow> (string + TimeEntry) \<times> APIClient" where
  "CreateTimeEntryForUser srv workspaceID userID request c =
     (onCreateTimeEntryForUser srv c workspaceID userID request,
      c @ [CreateTimeEntryForUserCall workspaceID userID request])"

text \<open>
  Modelled from the spec: the client's \<open>CreateWebhook\<close> and \<open>DeleteWebhook\<close>, which
  the source files do not contain.  Each is one request to the remote service about one
  webhook of a workspace; creation answers with the webhook or an error, deletion with
  an error or nothing.
\<close>

definition CreateWebhook ::
  "remote \<Rightarrow> string \<Rightarrow> WebhookRequest \<Rightarrow> APIClient \<Rightarrow> (string + Webhook) \<times> APIClient" where
  "CreateWebhook srv workspaceID request c =
     (onCreateWebhook srv c workspaceID request, c @ [CreateWebhookCall workspaceID request])"

definition DeleteWebhook ::
  "remote \<Rightarrow> string \<Rightarrow> string \<Rightarrow> APIClient \<Rightarrow> string option \<times> APIClient" where
  "DeleteWebhook srv workspaceID webhookID c =
     (onDeleteWebhook srv c workspaceID webhookID, c @ [DeleteWebhookCall workspaceID webhookID])"

text \<open>
  One page of a listing (\<open>GetProjects\<close>, \<open>GetClients\<close>, \<open>GetProjectTasks\<close>,
  \<open>GetTimeEntries\<close> with a page number): \<open>mk\<close> is the request, \<open>listing\<close> the remote's
  answer for a page.
\<close>

definition getPage ::
  "nat \<Rightarrow> (nat \<Rightarrow> call) \<Rightarrow> (call list \<Rightarrow> nat \<Rightarrow> string + 'a list) \<Rightarrow> nat \<Rightarrow> APIClient
     \<Rightarrow> (string + 'a list) \<times> APIClient" where
  "getPage limit mk listing page c =
     (if limit < page then Inr [] else listing c page, c @ [mk page])"

text \<open>
  The page iterators (\<open>IterProjects\<close>, \<open>IterClients\<close>, \<open>IterProjectTasks\<close>,
  \<open>IterTimeEntries\<close>) with the body of the \<open>range\<close> loop that consumes them.  The body
  gets the page or the error and the consumer's state; it answers \<open>Some r\<close> when it
  returns \<open>r\<close> from the enclosing function and \<open>None\<close> when the loop goes on.  The
  iterator stops after an error and at the first empty page.
\<close>

function IterPages ::
  "nat \<Rightarrow> (nat \<Rightarrow> call) \<Rightarrow> (call list \<Rightarrow> nat \<Rightarrow> string + 'a list)
     \<Rightarrow> (string + 'a list \<Rightarrow> 's \<Rightarrow> 'r option \<times> 's) \<Rightarrow> nat \<Rightarrow> 's \<Rightarrow> APIClient
     \<Rightarrow> 'r option \<times> 's \<times> APIClient" where
  "IterPages limit mk listing body page s c =
     (case getPage limit mk listing page c of
        (Inl err, c') \<Rightarrow> (case body (Inl err) s of (r, s') \<Rightarrow> (r, s', c'))
      | (Inr items, c') \<Rightarrow>
          if items = [] then (None, s, c')
          else (case body (Inr items) s of
                  (Some r, s') \<Rightarrow> (Some r, s', c')
                | (None, s') \<Rightarrow> IterPages limit mk listing body (Suc page) s' c'))"
  by pat_completeness auto
termination
proof (relation "measure (\<lambda>(limit, mk, listing, body, page, s, c). Suc limit - page)")
  show "wf (measure (\<lambda>(limit, mk, listing, body, page, s, c). Suc limit - page))"
    by simp
next
  fix limit :: nat and mk :: "nat \<Rightarrow> call"
    and listing :: "call list \<Rightarrow> nat \<Rightarrow> string + 'a list"
    and body :: "string + 'a list \<Rightarrow> 's \<Rightarrow> 'r option \<times> 's"
    and page :: nat and s :: 's and c :: APIClient and x1 c' items x y s'
  assume "(x1, c') = getPage limit mk listing page c" "x1 = Inr items" "items \<noteq> []"
  then have "page \<le> limit"
    by (auto simp: getPage_def split: if_splits)
  then show "((limit, mk, listing, body, Suc page, s', c'), (limit, mk, listing, body, page, s, c))
      \<in> measure (\<lambda>(limit, mk, listing, body, page, s, c). Suc limit - page)"
    by simp
qed

declare IterPages.simps [simp del]

section \<open>The migration service\<close>

text \<open>
  A call of the program ends in one of four ways: it returns a value, it returns an
  error, it panics (a \<open>nil\<close> pointer is dereferenced or a slice bound is out of range),
  or it never returns.
\<close>

datatype 'a outcome = Ok 'a | Err string | Panic | Hang

record MigrationStats =
  TimeEntriesProcessed :: int
  TimeEntriesCreated :: int
  ProjectsCreated :: int
  TasksCreated :: int
  ClientsCreated :: int
  Errors :: "string list"
  StartTime :: Time
  EndTime :: Time

text \<open>
  The service holds pointers to the caller's configuration and to its statistics; the
  fields \<open>config\<close> and \<open>stats\<close> are the objects pointed to, so a write through the
  pointer is an update of the field, and the caller's configuration after a call is
  \<open>config\<close> of the service.  The field \<open>client\<close> is the \<^typ>\<open>APIClient\<close> passed next
  to the service.
\<close>

record MigrationService =
  config :: MigrationConfig
  stats :: MigrationStats
  sourceWorkspace :: "Workspace option"
  targetWorkspace :: "Workspace option"
  sourceProject :: "Project option"
  targetProjects :: "string \<rightharpoonup> Project"
  targetTasks :: "string \<rightharpoonup> Task"
  targetClients :: "string \<rightharpoonup> Client"
  currentUser :: "User option"

definition NewMigrationService :: "MigrationConfig \<Rightarrow> Time \<Rightarrow> MigrationService" where
  "NewMigrationService cfg now =
     (let cfg1 = (if BatchSize cfg \<le> 0 then cfg\<lparr>BatchSize := 50\<rparr> else cfg);
          cfg2 = (if DefaultClientName cfg1 = [] then cfg1\<lparr>DefaultClientName := ''Default Client''\<rparr>
                  else cfg1)
      in \<lparr>config = cfg2,
          stats = \<lparr>TimeEntriesProcessed = 0, TimeEntriesCreated = 0, ProjectsCreated = 0,
                    TasksCreated = 0, ClientsCreated = 0, Errors = [], StartTime = now,
                    EndTime = 0\<rparr>,
          sourceWorkspace = None, targetWorkspace = None, sourceProject = None,
          targetProjects = Map.empty, targetTasks = Map.empty, targetClients = Map.empty,
          currentUser = None\<rparr>)"

text \<open>
  The idiom \<open>if err != nil { return fmt.Errorf("...: %w", err) }\<close>: go on with the
  value, or return the wrapped error; a panic or a hang ends the caller as well.
\<close>

definition orReturn ::
  "'a outcome \<times> MigrationService \<times> APIClient \<Rightarrow> (string \<Rightarrow> string)
     \<Rightarrow> ('a \<Rightarrow> MigrationService \<Rightarrow> APIClient \<Rightarrow> 'b outcome \<times> MigrationService \<times> APIClient)
     \<Rightarrow> 'b outcome \<times> MigrationService \<times> APIClient" where
  "orReturn r wrap k =
     (case r of
        (Ok x, m, c) \<Rightarrow> k x m c
      | (Err e, m, c) \<Rightarrow> (Err (wrap e), m, c)
      | (Panic, m, c) \<Rightarrow> (Panic, m, c)
      | (Hang, m, c) \<Rightarrow> (Hang, m, c))"

definition FindWorkspaceByName ::
  "remote \<Rightarrow> string \<Rightarrow> APIClient \<Rightarrow> (string + Workspace) \<times> APIClient" where
  "FindWorkspaceByName srv name c =
     (case GetWorkspaces srv c of
        (Inl err, c') \<Rightarrow> (Inl err, c')
      | (Inr workspaces, c') \<Rightarrow>
          (case find (\<lambda>ws. Workspace_Name ws = name) workspaces of
             Some ws \<Rightarrow> (Inr ws, c')
           | None \<Rightarrow> (Inl (''workspace '' @ quoted name @ '' not found''), c')))"

definition FindProjectByName ::
  "remote \<Rightarrow> string \<Rightarrow> string \<Rightarrow> APIClient \<Rightarrow> (string + Project) \<times> APIClient" where
  "FindProjectByName srv workspaceID name c =
     (case IterPages (pageLimit srv) (GetProjectsCall workspaceID)
             (\<lambda>h. onGetProjects srv h workspaceID)
             (\<lambda>page (u::unit).
                case page of
                  Inl err \<Rightarrow> (Some (Inl err), u)
                | Inr projects \<Rightarrow>
                    (case find (\<lambda>proj. Project_Name proj = name) projects of
                       Some proj \<Rightarrow> (Some (Inr proj), u)
                     | None \<Rightarrow> (None, u)))
             1 () c of
        (Some r, _, c') \<Rightarrow> (r, c')
      | (None, _, c') \<Rightarrow> (Inl (''project '' @ quoted name @ '' not found in workspace''), c'))"

definition GetProjectTimeEntries ::
  "remote \<Rightarrow> string \<Rightarrow> string \<Rightarrow> string \<Rightarrow> APIClient \<Rightarrow> (string + TimeEntry list) \<times> APIClient" where
  "GetProjectTimeEntries srv workspaceID projectID userID c =
     (case IterPages (pageLimit srv) (GetTimeEntriesCall workspaceID userID)
             (\<lambda>h. onGetTimeEntries srv h workspaceID userID)
             (\<lambda>page filteredEntries.
                case page of
                  Inl err \<Rightarrow> (Some err, filteredEntries)
                | Inr timeEntries \<Rightarrow>
                    (None, filteredEntries @
                             filter (\<lambda>entry. TimeEntry_ProjectID entry = projectID) timeEntries))
             1 [] c of
        (Some err, _, c') \<Rightarrow> (Inl err, c')
      | (None, filteredEntries, c') \<Rightarrow> (Inr filteredEntries, c'))"

definition getOrCreateTargetWorkspace ::
  "remote \<Rightarrow> MigrationService \<Rightarrow> APIClient \<Rightarrow> Workspace outcome \<times> MigrationService \<times> APIClient" where
  "getOrCreateTargetWorkspace srv m c =
     (case FindWorkspaceByName srv (TargetWorkspaceName (config m)) c of
        (Inr ws, c') \<Rightarrow> (Ok ws, m, c')
      | (Inl err, c') \<Rightarrow>
          (Err (''target workspace '' @ quoted (TargetWorkspaceName (config m)) @
                '' not found - please create it manually first''), m, c'))"

definition cacheTargetClients ::
  "remote \<Rightarrow> MigrationService \<Rightarrow> APIClient \<Rightarrow> unit outcome \<times> MigrationService \<times> APIClient" where
  "cacheTargetClients srv m c =
     (case targetWorkspace m of
        None \<Rightarrow> (Panic, m, c)
      | Some tw \<Rightarrow>
          (case IterPages (pageLimit srv) (GetClientsCall (Workspace_ID tw))
                  (\<lambda>h. onGetClients srv h (Workspace_ID tw))
                  (\<lambda>page m.
                     case page of
                       Inl err \<Rightarrow> (Some (Err err), m)
                     | Inr clients \<Rightarrow>
                         (None, m\<lparr>targetClients :=
                                    fold (\<lambda>client cache. cache(Client_Name client \<mapsto> client))
                                      clients (targetClients m)\<rparr>))
                  1 m c of
             (Some r, m', c') \<Rightarrow> (r, m', c')
           | (None, m', c') \<Rightarrow> (Ok (), m', c')))"

definition initializeWorkspaces ::
  "remote \<Rightarrow> MigrationService \<Rightarrow> APIClient \<Rightarrow> unit outcome \<times> MigrationService \<times> APIClient" where
  "initializeWorkspaces srv m c =
     (case GetCurrentUser srv c of
        (Inl err, c1) \<Rightarrow> (Err (''failed to get current user: '' @ err), m, c1)
      | (Inr user, c1) \<Rightarrow>
          (let m1 = m\<lparr>currentUser := Some user\<rparr> in
           case FindWorkspaceByName srv (SourceWorkspaceName (config m1)) c1 of
             (Inl err, c2) \<Rightarrow>
               (Err (''failed to find source workspace '' @
                     quoted (SourceWorkspaceName (config m1)) @ '': '' @ err), m1, c2)
           | (Inr sourceWs, c2) \<Rightarrow>
               (let m2 = m1\<lparr>sourceWorkspace := Some sourceWs\<rparr> in
                case FindProjectByName srv (Workspace_ID sourceWs)
                       (SourceProjectName (config m2)) c2 of
                  (Inl err, c3) \<Rightarrow>
                    (Err (''failed to find source project '' @
                          quoted (SourceProjectName (config m2)) @ '': '' @ err), m2, c3)
                | (Inr sourceProj, c3) \<Rightarrow>
                    (let m3 = m2\<lparr>sourceProject := Some sourceProj\<rparr> in
                     orReturn (getOrCreateTargetWorkspace srv m3 c3)
                       (\<lambda>err. ''failed to get/create target workspace: '' @ err)
                       (\<lambda>targetWs m4 c4.
                          orReturn (cacheTargetClients srv (m4\<lparr>targetWorkspace := Some targetWs\<rparr>) c4)
                            (\<lambda>err. ''failed to cache target clients: '' @ err)
                            (\<lambda>_ m5 c5. (Ok (), m5, c5)))))))"

definition getSourceTask ::
  "remote \<Rightarrow> string \<Rightarrow> MigrationService \<Rightarrow> APIClient \<Rightarrow> Task outcome \<times> MigrationService \<times> APIClient" where
  "getSourceTask srv taskID m c =
     (if taskID = [] then (Err ''empty task ID'', m, c)
      else
        (case (sourceWorkspace m, sourceProject m) of
           (Some sw, Some sp) \<Rightarrow>
             (case IterPages (pageLimit srv) (GetProjectTasksCall (Workspace_ID sw) (Project_ID sp))
                     (\<lambda>h. onGetProjectTasks srv h (Workspace_ID sw) (Project_ID sp))
                     (\<lambda>page (u::unit).
                        case page of
                          Inl err \<Rightarrow> (Some (Err err), u)
                        | Inr tasks \<Rightarrow>
                            (case find (\<lambda>task. Task_ID task = taskID) tasks of
                               Some task \<Rightarrow> (Some (Ok task), u)
                             | None \<Rightarrow> (None, u)))
                     1 () c of
                (Some r, _, c') \<Rightarrow> (r, m, c')
              | (None, _, c') \<Rightarrow> (Err (''task with ID '' @ taskID @ '' not found''), m, c'))
         | _ \<Rightarrow> (Panic, m, c)))"

definition getOrCreateClient ::
  "remote \<Rightarrow> string \<Rightarrow> MigrationService \<Rightarrow> APIClient
     \<Rightarrow> Client outcome \<times> MigrationService \<times> APIClient" where
  "getOrCreateClient srv clientName m c =
     (case targetClients m clientName of
        Some client \<Rightarrow> (Ok client, m, c)
      | None \<Rightarrow>
          if CreateClients (config m) \<and> \<not> DryRun (config m) then
            (case targetWorkspace m of
               None \<Rightarrow> (Panic, m, c)
             | Some tw \<Rightarrow>
                 (case CreateClient srv (Workspace_ID tw) clientName c of
                    (Inl err, c') \<Rightarrow> (Err err, m, c')
                  | (Inr client, c') \<Rightarrow>
                      (Ok client,
                       m\<lparr>targetClients := (targetClients m)(clientName \<mapsto> client),
                         stats := (stats m)\<lparr>ClientsCreated := ClientsCreated (stats m) + 1\<rparr>\<rparr>,
                       c')))
          else if DryRun (config m) then
            (Ok \<lparr>Client_ID = ''dummy'', Client_Name = clientName, Client_WorkspaceID = [],
                 Client_Archived = False, Client_Note = []\<rparr>, m, c)
          else
            (Err (''client '' @ quoted clientName @ '' not found and auto-creation disabled''),
             m, c))"

definition getOrCreateProject ::
  "remote \<Rightarrow> string \<Rightarrow> string \<Rightarrow> MigrationService \<Rightarrow> APIClient
     \<Rightarrow> Project outcome \<times> MigrationService \<times> APIClient" where
  "getOrCreateProject srv projectName clientID m c =
     (case targetProjects m projectName of
        Some project \<Rightarrow> (Ok project, m, c)
      | None \<Rightarrow>
          (case targetWorkspace m of
             None \<Rightarrow> (Panic, m, c)
           | Some tw \<Rightarrow>
               (case IterPages (pageLimit srv) (GetProjectsCall (Workspace_ID tw))
                       (\<lambda>h. onGetProjects srv h (Workspace_ID tw))
                       (\<lambda>page m.
                          case page of
                            Inl err \<Rightarrow> (Some (Err err), m)
                          | Inr projects \<Rightarrow>
                              (case find (\<lambda>proj. Project_Name proj = projectName) projects of
                                 Some proj \<Rightarrow>
                                   (Some (Ok proj),
                                    m\<lparr>targetProjects := (targetProjects m)(projectName \<mapsto> proj)\<rparr>)
                               | None \<Rightarrow> (None, m)))
                       1 m c of
                  (Some r, m', c') \<Rightarrow> (r, m', c')
                | (None, m', c') \<Rightarrow>
                    if DryRun (config m') then
                      (let dummyProject =
                             \<lparr>Project_ID = ''dummy'', Project_Name = projectName,
                              Project_ClientID = clientID, Project_ClientName = [],
                              Project_WorkspaceID = [], Project_Billable = False,
                              Project_Public = False, Project_Archived = False,
                              Project_Color = [], Project_Note = []\<rparr>
                       in (Ok dummyProject,
                           m'\<lparr>targetProjects := (targetProjects m')(projectName \<mapsto> dummyProject)\<rparr>,
                           c'))
                    else
                      (case CreateProject srv (Workspace_ID tw) projectName c' of
                         (Inl err, c'') \<Rightarrow> (Err err, m', c'')
                       | (Inr project, c'') \<Rightarrow>
                           (Ok project,
                            m'\<lparr>targetProjects := (targetProjects m')(projectName \<mapsto> project),
                               stats := (stats m')\<lparr>ProjectsCreated :=
                                                      ProjectsCreated (stats m') + 1\<rparr>\<rparr>,
                            c'')))))"

definition getOrCreateTask ::
  "remote \<Rightarrow> string \<Rightarrow> string \<Rightarrow> MigrationService \<Rightarrow> APIClient
     \<Rightarrow> Task outcome \<times> MigrationService \<times> APIClient" where
  "getOrCreateTask srv projectID taskName m c =
     (let cacheKey = projectID @ ''/'' @ taskName in
      case targetTasks m cacheKey of
        Some task \<Rightarrow> (Ok task, m, c)
      | None \<Rightarrow>
          (case targetWorkspace m of
             None \<Rightarrow> (Panic, m, c)
           | Some tw \<Rightarrow>
               (case IterPages (pageLimit srv) (GetProjectTasksCall (Workspace_ID tw) projectID)
                       (\<lambda>h. onGetProjectTasks srv h (Workspace_ID tw) projectID)
                       (\<lambda>page m.
                          case page of
                            Inl err \<Rightarrow> (Some (Err err), m)
                          | Inr tasks \<Rightarrow>
                              (case find (\<lambda>task. Task_Name task = taskName) tasks of
                                 Some task \<Rightarrow>
                                   (Some (Ok task),
                                    m\<lparr>targetTasks := (targetTasks m)(cacheKey \<mapsto> task)\<rparr>)
                               | None \<Rightarrow> (None, m)))
                       1 m c of
                  (Some r, m', c') \<Rightarrow> (r, m', c')
                | (None, m', c') \<Rightarrow>
                    if DryRun (config m') then
                      (let dummyTask =
                             \<lparr>Task_ID = ''dummy'', Task_Name = taskName,
                              Task_ProjectID = projectID, Task_Status = [], Task_Estimate = []\<rparr>
                       in (Ok dummyTask,
                           m'\<lparr>targetTasks := (targetTasks m')(cacheKey \<mapsto> dummyTask)\<rparr>, c'))
                    else
                      (case CreateTask srv (Workspace_ID tw) projectID taskName c' of
                         (Inl err, c'') \<Rightarrow> (Err err, m', c'')
                       | (Inr task, c'') \<Rightarrow>
                           (Ok task,
                            m'\<lparr>targetTasks := (targetTasks m')(cacheKey \<mapsto> task),
                               stats := (stats m')\<lparr>TasksCreated := TasksCreated (stats m') + 1\<rparr>\<rparr>,
                            c'')))))"

definition createTargetTimeEntry ::
  "remote \<Rightarrow> TimeEntry \<Rightarrow> string \<Rightarrow> string \<Rightarrow> MigrationService \<Rightarrow> APIClient
     \<Rightarrow> unit outcome \<times> MigrationService \<times> APIClient" where
  "createTargetTimeEntry srv sourceEntry targetProjectID targetTaskID m c =
     (if DryRun (config m) then
        (case TimeEntry_TimeInterval sourceEntry of
           None \<Rightarrow> (Panic, m, c)
         | Some interval \<Rightarrow> (Ok (), m, c))
      else
        (case TimeEntry_TimeInterval sourceEntry of
           None \<Rightarrow> (Panic, m, c)
         | Some interval \<Rightarrow>
             (let request =
                    \<lparr>Request_Start = Interval_Start interval, Request_End = Interval_End interval,
                     Request_Billable = TimeEntry_Billable sourceEntry,
                     Request_Description = TimeEntry_Description sourceEntry,
                     Request_ProjectID = targetProjectID, Request_TaskID = targetTaskID,
                     Request_TagIDs = TimeEntry_TagIDs sourceEntry\<rparr>
              in case (targetWorkspace m, currentUser m) of
                   (Some tw, Some user) \<Rightarrow>
                     (case CreateTimeEntryForUser srv (Workspace_ID tw) (User_ID user) request c of
                        (Inl err, c') \<Rightarrow> (Err err, m, c')
                      | (Inr _, c') \<Rightarrow>
                          (Ok (),
                           m\<lparr>stats := (stats m)\<lparr>TimeEntriesCreated :=
                                                   TimeEntriesCreated (stats m) + 1\<rparr>\<rparr>,
                           c'))
                 | _ \<Rightarrow> (Panic, m, c))))"

definition processTimeEntry ::
  "remote \<Rightarrow> TimeEntry \<Rightarrow> MigrationService \<Rightarrow> APIClient
     \<Rightarrow> unit outcome \<times> MigrationService \<times> APIClient" where
  "processTimeEntry srv entry m c =
     orReturn (getSourceTask srv (TimeEntry_TaskID entry) m c)
       (\<lambda>err. ''failed to get source task: '' @ err)
       (\<lambda>task m c.
          case ParseTaskName (config m) (Task_Name task) of
            Inl err \<Rightarrow>
              (Err (''failed to parse task name '' @ quoted (Task_Name task) @ '': '' @ err), m, c)
          | Inr mapping \<Rightarrow>
              orReturn (getOrCreateClient srv (ClientName mapping) m c)
                (\<lambda>err. ''failed to get/create client '' @ quoted (ClientName mapping) @ '': '' @ err)
                (\<lambda>targetClient m c.
                   orReturn (getOrCreateProject srv (ProjectName mapping) (Client_ID targetClient) m c)
                     (\<lambda>err. ''failed to get/create project '' @ quoted (ProjectName mapping) @
                             '': '' @ err)
                     (\<lambda>targetProject m c.
                        orReturn (getOrCreateTask srv (Project_ID targetProject)
                                    (NewTaskName mapping) m c)
                          (\<lambda>err. ''failed to get/create task '' @ quoted (NewTaskName mapping) @
                                  '': '' @ err)
                          (\<lambda>targetTask m c.
                             orReturn (createTargetTimeEntry srv entry (Project_ID targetProject)
                                         (Task_ID targetTask) m c)
                               (\<lambda>err. ''failed to create target time entry: '' @ err)
                               (\<lambda>_ m c. (Ok (), m, c))))))"

fun processBatch ::
  "remote \<Rightarrow> TimeEntry list \<Rightarrow> MigrationService \<Rightarrow> APIClient
     \<Rightarrow> unit outcome \<times> MigrationService \<times> APIClient" where
  "processBatch srv [] m c = (Ok (), m, c)"
| "processBatch srv (entry # timeEntries) m c =
     (case processTimeEntry srv entry m c of
        (Err err, m', c') \<Rightarrow>
          processBatch srv timeEntries
            (m'\<lparr>stats := (stats m')\<lparr>Errors := Errors (stats m') @
                 [''Failed to process entry '' @ TimeEntry_ID entry @ '': '' @ err]\<rparr>\<rparr>) c'
      | (Ok _, m', c') \<Rightarrow>
          processBatch srv timeEntries
            (m'\<lparr>stats := (stats m')\<lparr>TimeEntriesProcessed :=
                                       TimeEntriesProcessed (stats m') + 1\<rparr>\<rparr>) c'
      | (Panic, m', c') \<Rightarrow> (Panic, m', c')
      | (Hang, m', c') \<Rightarrow> (Hang, m', c'))"

fun decimal :: "nat \<Rightarrow> string" where
  "decimal n =
     (if n < 10 then [char_of (48 + n)] else decimal (n div 10) @ [char_of (48 + n mod 10)])"

declare decimal.simps [simp del]

text \<open>
  The loop \<open>for i := 0; i < len(timeEntries); i += m.config.BatchSize\<close>, from index
  \<open>i\<close>.  With a negative batch size the slice expression \<open>timeEntries[i:end]\<close> has
  \<open>end < i\<close> and panics; with batch size \<open>0\<close> the index never advances and the loop
  does not end.  The batch size is read through the configuration pointer, which no
  step of the loop writes, so it is read once per iteration here.  The sums stay far
  below the range of \<open>int\<close>: a second addition happens only when the batch size is
  smaller than the length of the slice.
\<close>

function processTimeEntries ::
  "remote \<Rightarrow> TimeEntry list \<Rightarrow> nat \<Rightarrow> MigrationService \<Rightarrow> APIClient
     \<Rightarrow> unit outcome \<times> MigrationService \<times> APIClient" where
  "processTimeEntries srv timeEntries i m c =
     (if i < length timeEntries then
        (if BatchSize (config m) < 0 then (Panic, m, c)
         else if BatchSize (config m) = 0 then (Hang, m, c)
         else
           (let end = min (i + nat (BatchSize (config m))) (length timeEntries);
                batch = take (end - i) (drop i timeEntries)
            in case processBatch srv batch m c of
                 (Ok _, m', c') \<Rightarrow>
                   processTimeEntries srv timeEntries (i + nat (BatchSize (config m))) m' c'
               | (Err err, m', c') \<Rightarrow>
                   (Err (''failed to process batch '' @ decimal (i + 1) @ ''-'' @ decimal end @
                         '': '' @ err), m', c')
               | (Panic, m', c') \<Rightarrow> (Panic, m', c')
               | (Hang, m', c') \<Rightarrow> (Hang, m', c')))
      else (Ok (), m, c))"
  by pat_completeness auto
termination
  by (relation "measure (\<lambda>(srv, timeEntries, i, m, c). length timeEntries - i)") auto

declare processTimeEntries.simps [simp del]

text \<open>
  \<open>ExecuteMigration\<close> returns the pointer to the statistics together with the error;
  here the statistics are \<open>stats\<close> of the returned service.  \<open>now\<close> is the reading of
  the clock at the end of the run.
\<close>

definition ExecuteMigration ::
  "remote \<Rightarrow> Time \<Rightarrow> MigrationService \<Rightarrow> APIClient
     \<Rightarrow> unit outcome \<times> MigrationService \<times> APIClient" where
  "ExecuteMigration srv now m c =
     orReturn (initializeWorkspaces srv m c)
       (\<lambda>err. ''failed to initialize workspaces: '' @ err)
       (\<lambda>_ m c.
          case (sourceWorkspace m, sourceProject m, currentUser m) of
            (Some sw, Some sp, Some user) \<Rightarrow>
              (case GetProjectTimeEntries srv (Workspace_ID sw) (Project_ID sp) (User_ID user) c of
                 (Inl err, c') \<Rightarrow> (Err (''failed to get source time entries: '' @ err), m, c')
               | (Inr timeEntries, c') \<Rightarrow>
                   orReturn (processTimeEntries srv timeEntries 0 m c')
                     (\<lambda>err. ''failed to process time entries: '' @ err)
                     (\<lambda>_ m c. (Ok (), m\<lparr>stats := (stats m)\<lparr>EndTime := now\<rparr>\<rparr>, c)))
          | _ \<Rightarrow> (Panic, m, c))"

section \<open>Webhook names\<close>

text \<open>
  \<open>utf8.DecodeRuneInString\<close>: the first code point of a string and the number of bytes
  it takes; a byte that starts no well-formed shortest encoding is the code point
  U+FFFD of width 1.
\<close>

definition RuneError :: nat where
  "RuneError = 0xFFFD"

definition cont :: "char \<Rightarrow> bool" where
  "cont b = (0x80 \<le> (of_char b :: nat) \<and> (of_char b :: nat) \<le> 0xBF)"

definition low6 :: "char \<Rightarrow> nat" where
  "low6 b = (of_char b :: nat) mod 64"

fun DecodeRuneInString :: "string \<Rightarrow> nat \<times> nat" where
  "DecodeRuneInString [] = (RuneError, 0)"
| "DecodeRuneInString (b0 # bs) =
     (let n0 = (of_char b0 :: nat) in
      if n0 < 0x80 then (n0, 1)
      else if 0xC2 \<le> n0 \<and> n0 \<le> 0xDF then
        (case bs of
           b1 # _ \<Rightarrow> if cont b1 then ((n0 mod 32) * 64 + low6 b1, 2) else (RuneError, 1)
         | _ \<Rightarrow> (RuneError, 1))
      else if 0xE0 \<le> n0 \<and> n0 \<le> 0xEF then
        (case bs of
           b1 # b2 # _ \<Rightarrow>
             if (if n0 = 0xE0 then 0xA0 else 0x80) \<le> (of_char b1 :: nat) \<and>
                (of_char b1 :: nat) \<le> (if n0 = 0xED then 0x9F else 0xBF) \<and> cont b2
             then ((n0 mod 16) * 4096 + low6 b1 * 64 + low6 b2, 3) else (RuneError, 1)
         | _ \<Rightarrow> (RuneError, 1))
      else if 0xF0 \<le> n0 \<and> n0 \<le> 0xF4 then
        (case bs of
           b1 # b2 # b3 # _ \<Rightarrow>
             if (if n0 = 0xF0 then 0x90 else 0x80) \<le> (of_char b1 :: nat) \<and>
                (of_char b1 :: nat) \<le> (if n0 = 0xF4 then 0x8F else 0xBF) \<and> cont b2 \<and> cont b3
             then ((n0 mod 8) * 262144 + low6 b1 * 4096 + low6 b2 * 64 + low6 b3, 4)
             else (RuneError, 1)
         | _ \<Rightarrow> (RuneError, 1))
      else (RuneError, 1))"

text \<open>The code points of a string in order, as a \<open>range\<close> loop over the string sees them.\<close>

function runes :: "string \<Rightarrow> nat list" where
  "runes s =
     (if s = [] then []
      else (case DecodeRuneInString s of (r, w) \<Rightarrow> r # runes (drop w s)))"
  by pat_completeness auto
termination
proof (relation "measure length")
  show "wf (measure length)" by simp
next
  fix s :: string and r w :: nat
  assume "s \<noteq> []" "(r, w) = DecodeRuneInString s"
  then have "0 < w"
    by (cases s) (auto simp: Let_def split: list.splits if_splits)
  with \<open>s \<noteq> []\<close> show "(drop w s, s) \<in> measure length" by simp
qed

declare runes.simps [simp del]

text \<open>
  The conversion \<open>string(r)\<close> of a code point: its encoding, and the encoding of U+FFFD
  for a surrogate or a value beyond U+10FFFF.
\<close>

definition encodeRune :: "nat \<Rightarrow> string" where
  "encodeRune r =
     (if r < 0x80 then [char_of r]
      else if r < 0x800 then [char_of (0xC0 + r div 64), char_of (0x80 + r mod 64)]
      else if (0xD800 \<le> r \<and> r \<le> 0xDFFF) \<or> 0x10FFFF < r then [CHR 0xEF, CHR 0xBF, CHR 0xBD]
      else if r < 0x10000 then
        [char_of (0xE0 + r div 4096), char_of (0x80 + (r div 64) mod 64), char_of (0x80 + r mod 64)]
      else
        [char_of (0xF0 + r div 262144), char_of (0x80 + (r div 4096) mod 64),
         char_of (0x80 + (r div 64) mod 64), char_of (0x80 + r mod 64)])"

definition runesString :: "nat list \<Rightarrow> string" where
  "runesString rs = concat (map encodeRune rs)"

text \<open>
  \<open>strings.ReplaceAll\<close> for the one-byte pattern of \<open>kebabify\<close>, and \<open>strings.ToLower\<close>:
  bytes are mapped when the string is ASCII, code points otherwise.  \<open>lowerTable\<close> is
  the lower-case mapping of the Unicode tables for the code points beyond ASCII.
\<close>

definition ReplaceAllByte :: "string \<Rightarrow> char \<Rightarrow> char \<Rightarrow> string" where
  "ReplaceAllByte s old new = map (\<lambda>b. if b = old then new else b) s"

definition lowerASCII :: "nat \<Rightarrow> nat" where
  "lowerASCII r = (if 0x41 \<le> r \<and> r \<le> 0x5A then r + 32 else r)"

definition ToLower :: "(nat \<Rightarrow> nat) \<Rightarrow> string \<Rightarrow> string" where
  "ToLower lowerTable s =
     (if \<forall>b \<in> set s. (of_char b :: nat) < 0x80
      then map (\<lambda>b. char_of (lowerASCII (of_char b))) s
      else runesString (map (\<lambda>r. if r < 0x80 then lowerASCII r else lowerTable r) (runes s)))"

definition kebabify :: "(nat \<Rightarrow> nat) \<Rightarrow> string \<Rightarrow> string" where
  "kebabify lowerTable s = ToLower lowerTable (ReplaceAllByte s (CHR '' '') (CHR ''-''))"

definition allowedRunes :: string where
  "allowedRunes = ''0123456789abcdefghijklmnopqrstuvwxyzABCDEFGHIJKLMNOPQRSTUVWXYZ''"

text \<open>
  \<open>seededRandInt n\<close> is \<open>rand.Intn n\<close>, some number below \<open>n\<close>: the draw is the
  generator's next value reduced to that range.
\<close>

definition seededRandInt :: "nat \<Rightarrow> nat \<Rightarrow> nat" where
  "seededRandInt entropy n = entropy mod n"

text \<open>\<open>draws\<close> gives the generator's value at each of the six draws.\<close>

definition makeWebhookName :: "(nat \<Rightarrow> nat) \<Rightarrow> (nat \<Rightarrow> nat) \<Rightarrow> string \<Rightarrow> string" where
  "makeWebhookName lowerTable draws workspaceName =
     (let maxWebhookNameLength = 30;
          randomPartLength = 6;
          suffix = ''-wh'';
          workspaceName = (if length workspaceName > 20 then take 20 workspaceName
                           else workspaceName);
          stripped = filter (\<lambda>r. r > 31 \<and> r \<noteq> 127 \<and> r \<noteq> 0x20 \<and> r \<noteq> 0x09 \<and> r \<noteq> 0x0A \<and> r \<noteq> 0x0D)
                       (runes workspaceName);
          kebabified = kebabify lowerTable (runesString stripped);
          randomPart = map (\<lambda>i. (of_char (allowedRunes !
                                  seededRandInt (draws i) (length allowedRunes)) :: nat))
                         [0 ..< randomPartLength];
          name = kebabified @ ''-'' @ runesString randomPart @ suffix
      in if length name > maxWebhookNameLength then take maxWebhookNameLength name else name)"

section \<open>The webhook service\<close>

record WorkspaceWebhookService =
  workspace :: Workspace
  url :: string
  webhooks :: "WebhookEvent \<rightharpoonup> Webhook"

definition NewWorkspaceWebhookService :: "Workspace \<Rightarrow> string \<Rightarrow> WorkspaceWebhookService" where
  "NewWorkspaceWebhookService ws u = \<lparr>workspace = ws, url = u, webhooks = Map.empty\<rparr>"

definition ErrDeleteWebhook :: string where
  "ErrDeleteWebhook = ''failed to delete webhook''"

definition NewProjectEvent :: WebhookEvent where "NewProjectEvent = ''NEW_PROJECT''"
definition NewClientEvent :: WebhookEvent where "NewClientEvent = ''NEW_CLIENT''"
definition NewTimerStartedEvent :: WebhookEvent where "NewTimerStartedEvent = ''NEW_TIMER_STARTED''"
definition TimerStoppedEvent :: WebhookEvent where "TimerStoppedEvent = ''TIMER_STOPPED''"
definition NewTagEvent :: WebhookEvent where "NewTagEvent = ''NEW_TAG''"

definition WorkspaceIDTrigger :: WebhookTriggerSourceType where
  "WorkspaceIDTrigger = ''WORKSPACE_ID''"

text \<open>
  A value of type \<open>any\<close> that holds a pointer to one of the payload structs, or a value
  of some other type.
\<close>

datatype object =
    TimeEntryObject TimeEntry
  | ClientObject Client
  | ProjectObject Project
  | TagObject Tag
  | OtherObject

definition zeroTimeEntry :: TimeEntry where
  "zeroTimeEntry =
     \<lparr>TimeEntry_ID = [], TimeEntry_Description = [], TimeEntry_TagIDs = [],
      TimeEntry_UserID = [], TimeEntry_Billable = False, TimeEntry_TaskID = [],
      TimeEntry_ProjectID = [], TimeEntry_TimeInterval = None, TimeEntry_WorkspaceID = [],
      TimeEntry_IsLocked = False\<rparr>"

definition zeroClient :: Client where
  "zeroClient =
     \<lparr>Client_ID = [], Client_Name = [], Client_WorkspaceID = [], Client_Archived = False,
      Client_Note = []\<rparr>"

definition zeroProject :: Project where
  "zeroProject =
     \<lparr>Project_ID = [], Project_Name = [], Project_ClientID = [], Project_ClientName = [],
      Project_WorkspaceID = [], Project_Billable = False, Project_Public = False,
      Project_Archived = False, Project_Color = [], Project_Note = []\<rparr>"

definition zeroTag :: Tag where
  "zeroTag = \<lparr>Tag_ID = [], Tag_Name = [], Tag_WorkspaceID = [], Tag_Archived = False\<rparr>"

definition eventToObject :: "(WebhookEvent \<times> object) list" where
  "eventToObject =
     [(NewTimerStartedEvent, TimeEntryObject zeroTimeEntry),
      (TimerStoppedEvent, TimeEntryObject zeroTimeEntry),
      (NewClientEvent, ClientObject zeroClient),
      (NewProjectEvent, ProjectObject zeroProject),
      (NewTagEvent, TagObject zeroTag)]"

text \<open>
  A \<open>range\<close> loop over a Go map visits every key once, in an order the runtime chooses;
  \<open>order\<close> is that order.
\<close>

definition rangesOver :: "'k list \<Rightarrow> 'k set \<Rightarrow> bool" where
  "rangesOver order keys = (distinct order \<and> set order = keys)"

fun createWebhooks ::
  "remote \<Rightarrow> (nat \<Rightarrow> nat) \<Rightarrow> (nat \<Rightarrow> nat) \<Rightarrow> WorkspaceWebhookService \<Rightarrow> WebhookEvent list \<Rightarrow> nat
     \<Rightarrow> (WebhookEvent \<rightharpoonup> Webhook) \<Rightarrow> APIClient
     \<Rightarrow> (string + (WebhookEvent \<rightharpoonup> Webhook)) \<times> APIClient" where
  "createWebhooks srv lowerTable draws s [] k registry c = (Inr registry, c)"
| "createWebhooks srv lowerTable draws s (event # events) k registry c =
     (case CreateWebhook srv (Workspace_ID (workspace s))
             \<lparr>WebhookRequest_Name =
                 makeWebhookName lowerTable (\<lambda>i. draws (6 * k + i)) (Workspace_Name (workspace s)),
              WebhookRequest_TriggerSource = [WorkspaceIDTrigger],
              WebhookRequest_TriggerSourceType = WorkspaceIDTrigger,
              WebhookRequest_TargetURL = url s,
              WebhookRequest_Event = event\<rparr> c of
        (Inl err, c') \<Rightarrow> (Inl (''failed to create webhook: '' @ err), c')
      | (Inr webhook, c') \<Rightarrow>
          createWebhooks srv lowerTable draws s events (Suc k) (registry(event \<mapsto> webhook)) c')"

text \<open>
  \<open>Create\<close> and \<open>Delete\<close> return an error or \<open>nil\<close>: \<open>Some\<close> message or \<open>None\<close>.  The
  \<open>k\<close>-th name drawn in \<open>Create\<close> uses the generator's values \<open>6 k\<close> to \<open>6 k + 5\<close>.
\<close>

definition Create ::
  "remote \<Rightarrow> (nat \<Rightarrow> nat) \<Rightarrow> (nat \<Rightarrow> nat) \<Rightarrow> WebhookEvent list \<Rightarrow> WorkspaceWebhookService
     \<Rightarrow> APIClient \<Rightarrow> string option \<times> WorkspaceWebhookService \<times> APIClient" where
  "Create srv lowerTable draws order s c =
     (case createWebhooks srv lowerTable draws s order 0 Map.empty c of
        (Inl err, c') \<Rightarrow> (Some err, s, c')
      | (Inr registry, c') \<Rightarrow> (None, s\<lparr>webhooks := registry\<rparr>, c'))"

definition Join :: "string \<Rightarrow> string \<Rightarrow> string" where
  "Join e1 e2 = e1 @ [CHR 0x0A] @ e2"

fun deleteWebhooks ::
  "remote \<Rightarrow> string \<Rightarrow> Webhook list \<Rightarrow> string \<Rightarrow> bool \<Rightarrow> APIClient \<Rightarrow> string \<times> bool \<times> APIClient" where
  "deleteWebhooks srv workspaceID [] totalErr ok c = (totalErr, ok, c)"
| "deleteWebhooks srv workspaceID (webhook # rest) totalErr ok c =
     (case DeleteWebhook srv workspaceID (Webhook_ID webhook) c of
        (Some err, c') \<Rightarrow> deleteWebhooks srv workspaceID rest (Join totalErr err) False c'
      | (None, c') \<Rightarrow> deleteWebhooks srv workspaceID rest totalErr ok c')"

definition Delete ::
  "remote \<Rightarrow> WebhookEvent list \<Rightarrow> WorkspaceWebhookService \<Rightarrow> APIClient
     \<Rightarrow> string option \<times> WorkspaceWebhookService \<times> APIClient" where
  "Delete srv order s c =
     (case deleteWebhooks srv (Workspace_ID (workspace s)) (List.map_filter (webhooks s) order)
             ErrDeleteWebhook True c of
        (totalErr, ok, c') \<Rightarrow> (if \<not> ok then Some totalErr else None, s, c'))"

section \<open>The webhook dispatcher\<close>

text \<open>
  An inbound request: its headers under their canonical names, and what reading the
  body to its end gives, an error or the bytes.
\<close>

record Request =
  Header :: "string \<rightharpoonup> string list"
  Body :: "string + string"

definition Get :: "(string \<rightharpoonup> string list) \<Rightarrow> string \<Rightarrow> string" where
  "Get h key = (case h key of None \<Rightarrow> [] | Some [] \<Rightarrow> [] | Some (v # _) \<Rightarrow> v)"

text \<open>
  \<open>json.Unmarshal\<close> into each of the payload structs is a parameter: an error, or the
  struct filled from the bytes.  Into \<open>nil\<close> or into another type it is an error.
\<close>

record decoder =
  decodeTimeEntry :: "string \<Rightarrow> TimeEntry \<Rightarrow> string + TimeEntry"
  decodeClient :: "string \<Rightarrow> Client \<Rightarrow> string + Client"
  decodeProject :: "string \<Rightarrow> Project \<Rightarrow> string + Project"
  decodeTag :: "string \<Rightarrow> Tag \<Rightarrow> string + Tag"

definition Unmarshal :: "decoder \<Rightarrow> string \<Rightarrow> object option \<Rightarrow> string + object" where
  "Unmarshal dec body obj =
     (case obj of
        Some (TimeEntryObject x) \<Rightarrow> map_sum id TimeEntryObject (decodeTimeEntry dec body x)
      | Some (ClientObject x) \<Rightarrow> map_sum id ClientObject (decodeClient dec body x)
      | Some (ProjectObject x) \<Rightarrow> map_sum id ProjectObject (decodeProject dec body x)
      | Some (TagObject x) \<Rightarrow> map_sum id TagObject (decodeTag dec body x)
      | _ \<Rightarrow> Inl ''json: Unmarshal(nil)'')"

definition cloneObject :: "object \<Rightarrow> object option" where
  "cloneObject template =
     (case template of
        TimeEntryObject _ \<Rightarrow> Some (TimeEntryObject zeroTimeEntry)
      | ClientObject _ \<Rightarrow> Some (ClientObject zeroClient)
      | ProjectObject _ \<Rightarrow> Some (ProjectObject zeroProject)
      | TagObject _ \<Rightarrow> Some (TagObject zeroTag)
      | OtherObject \<Rightarrow> None)"

definition verifyClockifySignature :: "string \<Rightarrow> Request \<Rightarrow> bool" where
  "verifyClockifySignature signature r = True"

definition ProcessWebhook ::
  "decoder \<Rightarrow> Request \<Rightarrow> WebhookEvent \<times> object option \<times> string option" where
  "ProcessWebhook dec r =
     (let eventType = Get (Header r) ''Clockify-Webhook-Event-Type'' in
      if eventType = [] then ([], None, Some ''missing Clockify-Webhook-Event-Type header'')
      else
        (let event = eventType in
         case map_of eventToObject event of
           None \<Rightarrow> (event, None, Some (''unsupported event type: '' @ eventType))
         | Some objTemplate \<Rightarrow>
             (let signature = Get (Header r) ''Clockify-Signature'' in
              if signature = [] then (event, None, Some ''missing Clockify-Signature header'')
              else if \<not> verifyClockifySignature signature r then
                (event, None, Some ''invalid signature'')
              else
                (case Body r of
                   Inl err \<Rightarrow> (event, None, Some (''failed to read body: '' @ err))
                 | Inr body \<Rightarrow>
                     (case Unmarshal dec body (cloneObject objTemplate) of
                        Inl err \<Rightarrow> (event, None, Some (''failed to unmarshal body: '' @ err))
                      | Inr obj \<Rightarrow> (event, Some obj, None))))))"

section \<open>Scenarios\<close>

text \<open>
  A small remote service: a user, a source workspace \<open>S\<close> with the project \<open>Legacy\<close>
  and two tasks (one named in the legacy format, one not), an empty target workspace
  \<open>T\<close>, and three time entries.  Every creation succeeds, except that of a webhook
  once two have been created.
\<close>

definition demoUser :: User where
  "demoUser =
     \<lparr>User_ID = ''u1'', User_Email = ''u@example.org'', User_Name = ''U'',
      User_ProfilePicture = [], User_ActiveWorkspace = [], User_DefaultWorkspace = [],
      User_Status = []\<rparr>"

definition demoEntry :: "string \<Rightarrow> string \<Rightarrow> TimeEntry" where
  "demoEntry i t =
     \<lparr>TimeEntry_ID = i, TimeEntry_Description = ''work'', TimeEntry_TagIDs = [],
      TimeEntry_UserID = ''u1'', TimeEntry_Billable = True, TimeEntry_TaskID = t,
      TimeEntry_ProjectID = ''p-src'',
      TimeEntry_TimeInterval =
        Some \<lparr>Interval_Start = 10, Interval_End = Some 20, Interval_Duration = []\<rparr>,
      TimeEntry_WorkspaceID = ''ws-s'', TimeEntry_IsLocked = False\<rparr>"

definition demoTask :: "string \<Rightarrow> string \<Rightarrow> string \<Rightarrow> Task" where
  "demoTask i n pr =
     \<lparr>Task_ID = i, Task_Name = n, Task_ProjectID = pr, Task_Status = ''ACTIVE'',
      Task_Estimate = []\<rparr>"

definition demoProject :: "string \<Rightarrow> string \<Rightarrow> Project" where
  "demoProject i n =
     \<lparr>Project_ID = i, Project_Name = n, Project_ClientID = [], Project_ClientName = [],
      Project_WorkspaceID = [], Project_Billable = True, Project_Public = False,
      Project_Archived = False, Project_Color = [], Project_Note = []\<rparr>"

definition demoWebhook :: "string \<Rightarrow> WebhookRequest \<Rightarrow> Webhook" where
  "demoWebhook ws r =
     \<lparr>Webhook_AuthToken = [], Webhook_Enabled = True,
      Webhook_ID = ''wh-'' @ WebhookRequest_Event r, Webhook_Name = WebhookRequest_Name r,
      Webhook_TriggerSource = WebhookRequest_TriggerSource r,
      Webhook_TriggerSourceType = WebhookRequest_TriggerSourceType r,
      Webhook_TargetURL = WebhookRequest_TargetURL r, Webhook_UserID = ''u1'',
      Webhook_Event = WebhookRequest_Event r, Webhook_WorkspaceID = ws\<rparr>"

definition demoRemote :: remote where
  "demoRemote =
     \<lparr>pageLimit = 3,
      onGetCurrentUser = (\<lambda>h. Inr demoUser),
      onGetWorkspaces =
        (\<lambda>h. Inr [\<lparr>Workspace_ID = ''ws-s'', Workspace_Name = ''S''\<rparr>,
                  \<lparr>Workspace_ID = ''ws-t'', Workspace_Name = ''T''\<rparr>]),
      onGetProjects =
        (\<lambda>h ws page. Inr (if ws = ''ws-s'' \<and> page = 1 then [demoProject ''p-src'' ''Legacy'']
                           else [])),
      onGetClients = (\<lambda>h ws page. Inr []),
      onGetProjectTasks =
        (\<lambda>h ws pr page.
           Inr (if ws = ''ws-s'' \<and> page = 1
                then [demoTask ''t1'' ''Acme/TASK42'' ''p-src'', demoTask ''t2'' ''Broken'' ''p-src'']
                else [])),
      onGetTimeEntries =
        (\<lambda>h ws u page.
           Inr (if page = 1
                then [demoEntry ''e1'' ''t1'', demoEntry ''e2'' ''t2'', demoEntry ''e3'' ''t1'']
                else [])),
      onCreateClient =
        (\<lambda>h ws n. Inr \<lparr>Client_ID = ''c-new'', Client_Name = n, Client_WorkspaceID = ws,
                         Client_Archived = False, Client_Note = []\<rparr>),
      onCreateProject = (\<lambda>h ws n. Inr (demoProject ''p-new'' n)),
      onCreateTask = (\<lambda>h ws pr n. Inr (demoTask ''t-new'' n pr)),
      onCreateTimeEntryForUser = (\<lambda>h ws u r. Inr (demoEntry ''e-new'' (Request_TaskID r))),
      onCreateWebhook =
        (\<lambda>h ws r. if length (filter isCreateOrDelete h) < 2 then Inr (demoWebhook ws r)
                   else Inl ''429 Too Many Requests''),
      onDeleteWebhook = (\<lambda>h ws i. None)\<rparr>"

definition demoConfig :: "bool \<Rightarrow> MigrationConfig" where
  "demoConfig dry =
     \<lparr>SourceWorkspaceName = ''S'', SourceProjectName = ''Legacy'', TargetWorkspaceName = ''T'',
      ClientMapping = None, DefaultClientName = [], DryRun = dry, BatchSize = 0,
      SkipExisting = False, CreateClients = True\<rparr>"

text \<open>A configuration with a client mapping that has no entry for the project \<open>Acme\<close>.\<close>

definition mappedConfig :: MigrationConfig where
  "mappedConfig =
     \<lparr>SourceWorkspaceName = ''S'', SourceProjectName = ''Legacy'', TargetWorkspaceName = ''T'',
      ClientMapping = Some [''Initech'' \<mapsto> ''Initech Ltd''],
      DefaultClientName = ''Default Client'', DryRun = False, BatchSize = 50,
      SkipExisting = False, CreateClients = True\<rparr>"

text \<open>
  The client name as the priority order reads: the mapping's entry for the project
  when there is one, otherwise the project name followed by \<open>Client\<close> when clients
  are created automatically, otherwise the default.
\<close>

definition claimedClientName :: "MigrationConfig \<Rightarrow> string \<Rightarrow> string" where
  "claimedClientName cfg projectName =
     (case (case ClientMapping cfg of None \<Rightarrow> None | Some mapping \<Rightarrow> mapping projectName) of
        Some mappedClient \<Rightarrow> mappedClient
      | None \<Rightarrow>
          if CreateClients cfg then projectName @ '' Client'' else DefaultClientName cfg)"

text \<open>The parts of a webhook name: the sanitized prefix and the six random characters.\<close>

definition sanitized :: "(nat \<Rightarrow> nat) \<Rightarrow> string \<Rightarrow> string" where
  "sanitized lowerTable workspaceName =
     kebabify lowerTable
       (runesString
          (filter (\<lambda>r. r > 31 \<and> r \<noteq> 127 \<and> r \<noteq> 0x20 \<and> r \<noteq> 0x09 \<and> r \<noteq> 0x0A \<and> r \<noteq> 0x0D)
             (runes (take 20 workspaceName))))"

definition randomPart :: "(nat \<Rightarrow> nat) \<Rightarrow> string" where
  "randomPart draws =
     map (\<lambda>i. allowedRunes ! seededRandInt (draws i) (length allowedRunes)) [0 ..< 6]"

text \<open>
  The event types of the table, and the payload of a delivery as the dispatcher's
  contract describes it: the body decoded into a new zero value of the struct
  registered for the event type.
\<close>

definition supportedEvents :: "WebhookEvent list" where
  "supportedEvents =
     [NewTimerStartedEvent, TimerStoppedEvent, NewClientEvent, NewProjectEvent, NewTagEvent]"

definition decodeFor :: "decoder \<Rightarrow> WebhookEvent \<Rightarrow> string \<Rightarrow> string + object" where
  "decodeFor dec event body =
     (if event = NewTimerStartedEvent \<or> event = TimerStoppedEvent
        then map_sum id TimeEntryObject (decodeTimeEntry dec body zeroTimeEntry)
      else if event = NewClientEvent
        then map_sum id ClientObject (decodeClient dec body zeroClient)
      else if event = NewProjectEvent
        then map_sum id ProjectObject (decodeProject dec body zeroProject)
      else map_sum id TagObject (decodeTag dec body zeroTag))"

text \<open>
  A decoder that accepts the empty JSON object only, a delivery whose event-type header
  is present with an empty value, and a well-formed delivery.
\<close>

definition demoDecoder :: decoder where
  "demoDecoder =
     \<lparr>decodeTimeEntry =
        (\<lambda>body x. if body = ''{}'' then Inr x else Inl ''unexpected end of JSON input''),
      decodeClient =
        (\<lambda>body x. if body = ''{}'' then Inr x else Inl ''unexpected end of JSON input''),
      decodeProject =
        (\<lambda>body x. if body = ''{}'' then Inr x else Inl ''unexpected end of JSON input''),
      decodeTag =
        (\<lambda>body x. if body = ''{}'' then Inr x else Inl ''unexpected end of JSON input'')\<rparr>"

definition emptyEventRequest :: Request where
  "emptyEventRequest =
     \<lparr>Header = [''Clockify-Webhook-Event-Type'' \<mapsto> [[]], ''Clockify-Signature'' \<mapsto> [''sig'']],
      Body = Inr ''{}''\<rparr>"

definition newClientRequest :: Request where
  "newClientRequest =
     \<lparr>Header = [''Clockify-Webhook-Event-Type'' \<mapsto> [''NEW_CLIENT''],
                ''Clockify-Signature'' \<mapsto> [''sig'']],
      Body = Inr ''{}''\<rparr>"

text \<open>
  What a step of the run leaves in place.  \<open>extends m m'\<close>: the configuration and the
  pointers of the service are unchanged and the three caches have kept every entry.
  \<open>frame m c m' c'\<close>: moreover the recorded errors and the count of processed entries
  are unchanged, the client has only sent further requests, and in a dry run none of
  them creates or deletes anything and the statistics are unchanged.
\<close>

definition extends :: "MigrationService \<Rightarrow> MigrationService \<Rightarrow> bool" where
  "extends m m' \<longleftrightarrow>
     config m' = config m \<and> sourceWorkspace m' = sourceWorkspace m \<and>
     targetWorkspace m' = targetWorkspace m \<and> sourceProject m' = sourceProject m \<and>
     currentUser m' = currentUser m \<and>
     targetProjects m \<subseteq>\<^sub>m targetProjects m' \<and> targetTasks m \<subseteq>\<^sub>m targetTasks m' \<and>
     targetClients m \<subseteq>\<^sub>m targetClients m'"

definition frame :: "MigrationService \<Rightarrow> APIClient \<Rightarrow> MigrationService \<Rightarrow> APIClient \<Rightarrow> bool" where
  "frame m c m' c' \<longleftrightarrow>
     extends m m' \<and>
     Errors (stats m') = Errors (stats m) \<and>
     TimeEntriesProcessed (stats m') = TimeEntriesProcessed (stats m) \<and>
     (\<exists>calls. c' = c @ calls \<and>
        (DryRun (config m) \<longrightarrow> filter isCreateOrDelete calls = [] \<and> stats m' = stats m))"

text \<open>
  The outcome of each entry of a list, processed in order on the state that
  \<open>processBatch\<close> passes along; an entry that panics is the last one processed.  An
  entry fails when its processing returns an error and succeeds when it returns
  \<open>nil\<close>.  \<open>errorLines\<close> are the lines the failures add to the statistics.
\<close>

fun entryOutcomes ::
  "remote \<Rightarrow> TimeEntry list \<Rightarrow> MigrationService \<Rightarrow> APIClient \<Rightarrow> unit outcome list" where
  "entryOutcomes srv [] m c = []"
| "entryOutcomes srv (entry # timeEntries) m c =
     (case processTimeEntry srv entry m c of
        (Err err, m', c') \<Rightarrow>
          Err err # entryOutcomes srv timeEntries
            (m'\<lparr>stats := (stats m')\<lparr>Errors := Errors (stats m') @
                 [''Failed to process entry '' @ TimeEntry_ID entry @ '': '' @ err]\<rparr>\<rparr>) c'
      | (Ok u, m', c') \<Rightarrow>
          Ok u # entryOutcomes srv timeEntries
            (m'\<lparr>stats := (stats m')\<lparr>TimeEntriesProcessed :=
                                       TimeEntriesProcessed (stats m') + 1\<rparr>\<rparr>) c'
      | (Panic, m', c') \<Rightarrow> [Panic]
      | (Hang, m', c') \<Rightarrow> [Hang])"

definition failed :: "unit outcome \<Rightarrow> bool" where
  "failed x = (case x of Err _ \<Rightarrow> True | _ \<Rightarrow> False)"

definition succeeded :: "unit outcome \<Rightarrow> bool" where
  "succeeded x = (case x of Ok _ \<Rightarrow> True | _ \<Rightarrow> False)"

fun errorLines :: "TimeEntry list \<Rightarrow> unit outcome list \<Rightarrow> string list" where
  "errorLines (entry # timeEntries) (Err err # outcomes) =
     (''Failed to process entry '' @ TimeEntry_ID entry @ '': '' @ err) #
       errorLines timeEntries outcomes"
| "errorLines (entry # timeEntries) (_ # outcomes) = errorLines timeEntries outcomes"
| "errorLines _ _ = []"

text \<open>
  What initialisation and fetching leave in place: the configuration and the
  statistics, and no request that creates or deletes.
\<close>

definition initFrame :: "MigrationService \<Rightarrow> APIClient \<Rightarrow> MigrationService \<Rightarrow> APIClient \<Rightarrow> bool" where
  "initFrame m c m' c' \<longleftrightarrow>
     config m' = config m \<and> stats m' = stats m \<and>
     (\<exists>calls. c' = c @ calls \<and> filter isCreateOrDelete calls = [])"

text \<open>
  A sequence of resolutions in a run, each on the state the one before has left; a
  resolution that fails leaves the run going.
\<close>

datatype resolution =
    ResolveClient string
  | ResolveProject string string
  | ResolveTask string string

fun resolveAll ::
  "remote \<Rightarrow> resolution list \<Rightarrow> MigrationService \<Rightarrow> APIClient \<Rightarrow> MigrationService \<times> APIClient" where
  "resolveAll srv [] m c = (m, c)"
| "resolveAll srv (ResolveClient clientName # rest) m c =
     (case getOrCreateClient srv clientName m c of (_, m', c') \<Rightarrow> resolveAll srv rest m' c')"
| "resolveAll srv (ResolveProject projectName clientID # rest) m c =
     (case getOrCreateProject srv projectName clientID m c of
        (_, m', c') \<Rightarrow> resolveAll srv rest m' c')"
| "resolveAll srv (ResolveTask projectID taskName # rest) m c =
     (case getOrCreateTask srv projectID taskName m c of (_, m', c') \<Rightarrow> resolveAll srv rest m' c')"

text \<open>The remote service of the scenarios, except that creating a project fails.\<close>

definition flakyRemote :: remote where
  "flakyRemote = demoRemote\<lparr>onCreateProject := (\<lambda>h ws n. Inl ''503 Service Unavailable'')\<rparr>"

text \<open>The service of the scenarios after its initialisation, and the client then.\<close>

definition readyService :: MigrationService where
  "readyService =
     fst (snd (initializeWorkspaces demoRemote (NewMigrationService (demoConfig False) 1) []))"

definition readyClient :: APIClient where
  "readyClient =
     snd (snd (initializeWorkspaces demoRemote (NewMigrationService (demoConfig False) 1) []))"

text \<open>
  The errors that the deletions of a list of webhooks return, in order, each deletion
  answered after the ones before it.
\<close>

fun deletionErrors :: "remote \<Rightarrow> string \<Rightarrow> Webhook list \<Rightarrow> APIClient \<Rightarrow> string list" where
  "deletionErrors srv workspaceID [] c = []"
| "deletionErrors srv workspaceID (webhook # rest) c =
     (case onDeleteWebhook srv c workspaceID (Webhook_ID webhook) of
        Some err \<Rightarrow> [err]
      | None \<Rightarrow> []) @
     deletionErrors srv workspaceID rest (c @ [DeleteWebhookCall workspaceID (Webhook_ID webhook)])"

text \<open>A new webhook service for the target workspace of the scenarios.\<close>

definition demoWebhookService :: WorkspaceWebhookService where
  "demoWebhookService =
     NewWorkspaceWebhookService \<lparr>Workspace_ID = ''ws-t'', Workspace_Name = ''T''\<rparr>
       ''http://localhost:8080''"

text \<open>
  A remote service that creates every webhook and refuses to delete the one for new
  tags.
\<close>

definition steadyRemote :: remote where
  "steadyRemote =
     demoRemote\<lparr>onCreateWebhook := (\<lambda>h ws r. Inr (demoWebhook ws r)),
                onDeleteWebhook := (\<lambda>h ws i. if i = ''wh-NEW_TAG'' then Some ''404 Not Found''
                                               else None)\<rparr>"

text \<open>A webhook service whose registry holds two webhooks.\<close>

definition registeredService :: WorkspaceWebhookService where
  "registeredService =
     demoWebhookService
       \<lparr>webhooks :=
          [NewClientEvent \<mapsto>
             \<lparr>Webhook_AuthToken = [], Webhook_Enabled = True, Webhook_ID = ''wh-NEW_CLIENT'',
              Webhook_Name = ''t-012345-wh'', Webhook_TriggerSource = [WorkspaceIDTrigger],
              Webhook_TriggerSourceType = WorkspaceIDTrigger,
              Webhook_TargetURL = ''http://localhost:8080'', Webhook_UserID = ''u1'',
              Webhook_Event = NewClientEvent, Webhook_WorkspaceID = ''ws-t''\<rparr>,
           NewTagEvent \<mapsto>
             \<lparr>Webhook_AuthToken = [], Webhook_Enabled = True, Webhook_ID = ''wh-NEW_TAG'',
              Webhook_Name = ''t-6789ab-wh'', Webhook_TriggerSource = [WorkspaceIDTrigger],
              Webhook_TriggerSourceType = WorkspaceIDTrigger,
              Webhook_TargetURL = ''http://localhost:8080'', Webhook_UserID = ''u1'',
              Webhook_Event = NewTagEvent, Webhook_WorkspaceID = ''ws-t''\<rparr>]\<rparr>"

text \<open>
  The remote of the scenarios with a different listing of time entries: three entries of
  the task \<open>Acme/TASK42\<close>, the second of them without a time interval (the JSON of the entry
  has no \<open>timeInterval\<close> key, or has \<open>null\<close> there, so that the pointer is \<open>nil\<close>).
\<close>

definition nilIntervalRemote :: remote where
  "nilIntervalRemote =
     demoRemote
       \<lparr>onGetTimeEntries :=
          (\<lambda>h ws u page.
             Inr (if page = 1
                  then [demoEntry ''e1'' ''t1'',
                        (demoEntry ''e2'' ''t1'')\<lparr>TimeEntry_TimeInterval := None\<rparr>,
                        demoEntry ''e3'' ''t1'']
                  else []))\<rparr>"

section \<open>The parser: properties\<close>

lemma trailing_digits:
  assumes "\<forall>c\<in>set d. isDigit c"
  shows "rev (takeWhile isDigit (rev (p @ ''/TASK'' @ d))) = d"
proof -
  have "takeWhile isDigit (rev d @ rev (p @ ''/TASK'')) =
          rev d @ takeWhile isDigit (rev (p @ ''/TASK''))"
    using assms by (intro takeWhile_append2) simp
  moreover have "takeWhile isDigit (rev (p @ ''/TASK'')) = []"
    by (simp add: isDigit_def)
  ultimately show ?thesis by simp
qed

lemma FindStringSubmatch_unfold:
  "FindStringSubmatch s =
     (if rev (takeWhile isDigit (rev s)) \<noteq> [] \<and>
         drop (length (take (length s - length (rev (takeWhile isDigit (rev s)))) s) - 5)
              (take (length s - length (rev (takeWhile isDigit (rev s)))) s) = ''/TASK'' \<and>
         take (length (take (length s - length (rev (takeWhile isDigit (rev s)))) s) - 5)
              (take (length s - length (rev (takeWhile isDigit (rev s)))) s) \<noteq> [] \<and>
         CHR 0x0A \<notin> set (take (length (take (length s - length (rev (takeWhile isDigit (rev s)))) s) - 5)
              (take (length s - length (rev (takeWhile isDigit (rev s)))) s))
      then Some (take (length (take (length s - length (rev (takeWhile isDigit (rev s)))) s) - 5)
              (take (length s - length (rev (takeWhile isDigit (rev s)))) s),
            rev (takeWhile isDigit (rev s)))
      else None)"
  unfolding FindStringSubmatch_def Let_def ..

text \<open>
  The matcher agrees with the regular expression: a string matches exactly when it is
  a non-empty part without line feed, then \<open>/TASK\<close>, then a non-empty run of digits,
  and the groups are these two parts.
\<close>

lemma FindStringSubmatch_match:
  assumes "p \<noteq> []" "CHR 0x0A \<notin> set p" "d \<noteq> []" "\<forall>c\<in>set d. isDigit c"
  shows "FindStringSubmatch (p @ ''/TASK'' @ d) = Some (p, d)"
proof -
  let ?s = "p @ ''/TASK'' @ d"
  have d: "rev (takeWhile isDigit (rev ?s)) = d"
    by (rule trailing_digits [OF assms(4)])
  have r: "take (length ?s - length d) ?s = p @ ''/TASK''"
    by simp
  have l: "length (p @ ''/TASK'') - 5 = length p" by simp
  have p: "take (length p) (p @ ''/TASK'') = p" "drop (length p) (p @ ''/TASK'') = ''/TASK''"
    by simp_all
  show ?thesis
    unfolding FindStringSubmatch_unfold d r l p using assms(1-3)
    by (simp only: simp_thms if_True)
qed

lemma FindStringSubmatch_Some:
  assumes "FindStringSubmatch s = Some (p, d)"
  shows "s = p @ ''/TASK'' @ d \<and> p \<noteq> [] \<and> CHR 0x0A \<notin> set p \<and> d \<noteq> [] \<and>
         (\<forall>c\<in>set d. isDigit c)"
proof -
  define d' where "d' = rev (takeWhile isDigit (rev s))"
  define r where "r = take (length s - length d') s"
  define p' where "p' = take (length r - 5) r"
  have dig: "\<forall>c\<in>set d'. isDigit c"
    unfolding d'_def using set_takeWhileD by fastforce
  have "rev s = takeWhile isDigit (rev s) @ dropWhile isDigit (rev s)" by simp
  then have "s = rev (dropWhile isDigit (rev s)) @ d'"
    unfolding d'_def by (metis rev_append rev_rev_ident)
  then have s: "s = r @ d'"
    unfolding r_def by (metis append_eq_conv_conj diff_add_inverse2 length_append)
  have f: "FindStringSubmatch s =
     (if d' \<noteq> [] \<and> drop (length r - 5) r = ''/TASK'' \<and> p' \<noteq> [] \<and> CHR 0x0A \<notin> set p'
      then Some (p', d') else None)"
    unfolding FindStringSubmatch_def Let_def d'_def r_def p'_def ..
  have c: "d' \<noteq> [] \<and> drop (length r - 5) r = ''/TASK'' \<and> p' \<noteq> [] \<and> CHR 0x0A \<notin> set p'"
    using assms unfolding f by (meson option.distinct(1))
  then have e: "p = p'" "d = d'"
    using assms unfolding f by (simp_all only: if_True option.inject prod.inject simp_thms)
  have "r = take (length r - 5) r @ drop (length r - 5) r"
    by (simp only: append_take_drop_id)
  with c have "r = p @ ''/TASK''" unfolding e p'_def by metis
  with s c dig show ?thesis unfolding e by (simp only: append_assoc simp_thms)
qed

lemma ParseTaskName_match:
  assumes "p \<noteq> []" "CHR 0x0A \<notin> set p" "d \<noteq> []" "\<forall>c\<in>set d. isDigit c"
  shows "ParseTaskName cfg (p @ ''/TASK'' @ d) =
     Inr \<lparr>OriginalTaskName = p @ ''/TASK'' @ d, ProjectName = TrimSpace p, TaskNumber = d,
          NewTaskName = ''TASK '' @ d,
          ClientName =
            (case ClientMapping cfg of
               Some mapping \<Rightarrow>
                 (case mapping (TrimSpace p) of
                    Some mappedClient \<Rightarrow> mappedClient
                  | None \<Rightarrow> DefaultClientName cfg)
             | None \<Rightarrow>
                 if CreateClients cfg then TrimSpace p @ '' Client'' else DefaultClientName cfg)\<rparr>"
  unfolding ParseTaskName_def FindStringSubmatch_match [OF assms] Let_def by simp


lemma TrimSpace_Acme: "TrimSpace ''Acme'' = ''Acme''"
  by code_simp


lemma ParseTaskName_Acme:
  "ParseTaskName cfg ''Acme/TASK42'' =
     Inr \<lparr>OriginalTaskName = ''Acme/TASK42'', ProjectName = ''Acme'', TaskNumber = ''42'',
          NewTaskName = ''TASK 42'',
          ClientName =
            (case ClientMapping cfg of
               Some mapping \<Rightarrow>
                 (case mapping ''Acme'' of
                    Some mappedClient \<Rightarrow> mappedClient
                  | None \<Rightarrow> DefaultClientName cfg)
             | None \<Rightarrow> if CreateClients cfg then ''Acme Client'' else DefaultClientName cfg)\<rparr>"
proof -
  have "''Acme'' \<noteq> []" "CHR 0x0A \<notin> set ''Acme''" "''42'' \<noteq> []" "\<forall>c\<in>set ''42''. isDigit c"
    by (simp_all add: isDigit_def)
  from ParseTaskName_match [OF this, of cfg] show ?thesis
    unfolding TrimSpace_Acme by (simp split: option.split)
qed



text \<open>
  C5, as stated, fails: with a client mapping that has no entry for the project and
  automatic creation of clients enabled, the parser takes the default client name, not
  the project name followed by \<open>Client\<close>.
\<close>

theorem client_precedence_counterexample:
  "map_sum id ProjectName (ParseTaskName mappedConfig ''Acme/TASK42'') = Inr ''Acme'' \<and>
   map_sum id ClientName (ParseTaskName mappedConfig ''Acme/TASK42'') = Inr ''Default Client'' \<and>
   claimedClientName mappedConfig ''Acme'' = ''Acme Client''"
  by (simp add: ParseTaskName_Acme mappedConfig_def claimedClientName_def)

text \<open>
  C5, amended.  For a task name that matches, the client name is the mapping's entry
  for the project name when a mapping is configured and has one; the project name
  followed by \<open>Client\<close> when no mapping is configured at all and clients are created
  automatically; and the default client name otherwise, that is when no mapping is
  configured and clients are not created automatically, or when a mapping is configured
  without an entry for the project name.
\<close>

theorem client_precedence:
  "p \<noteq> [] \<and> CHR 0x0A \<notin> set p \<and> d \<noteq> [] \<and> (\<forall>c\<in>set d. isDigit c) \<longrightarrow>
     (\<exists>m. ParseTaskName cfg (p @ ''/TASK'' @ d) = Inr m \<and> ProjectName m = TrimSpace p \<and>
        (\<forall>mapping mappedClient.
            ClientMapping cfg = Some mapping \<and> mapping (ProjectName m) = Some mappedClient \<longrightarrow>
            ClientName m = mappedClient) \<and>
        (ClientMapping cfg = None \<and> CreateClients cfg \<longrightarrow>
            ClientName m = ProjectName m @ '' Client'') \<and>
        (ClientMapping cfg = None \<and> \<not> CreateClients cfg \<longrightarrow>
            ClientName m = DefaultClientName cfg) \<and>
        (\<forall>mapping. ClientMapping cfg = Some mapping \<and> mapping (ProjectName m) = None \<longrightarrow>
            ClientName m = DefaultClientName cfg))"
proof
  assume "p \<noteq> [] \<and> CHR 0x0A \<notin> set p \<and> d \<noteq> [] \<and> (\<forall>c\<in>set d. isDigit c)"
  then have "p \<noteq> []" "CHR 0x0A \<notin> set p" "d \<noteq> []" "\<forall>c\<in>set d. isDigit c" by blast+
  from ParseTaskName_match [OF this, of cfg]
  show "\<exists>m. ParseTaskName cfg (p @ ''/TASK'' @ d) = Inr m \<and> ProjectName m = TrimSpace p \<and>
        (\<forall>mapping mappedClient.
            ClientMapping cfg = Some mapping \<and> mapping (ProjectName m) = Some mappedClient \<longrightarrow>
            ClientName m = mappedClient) \<and>
        (ClientMapping cfg = None \<and> CreateClients cfg \<longrightarrow>
            ClientName m = ProjectName m @ '' Client'') \<and>
        (ClientMapping cfg = None \<and> \<not> CreateClients cfg \<longrightarrow>
            ClientName m = DefaultClientName cfg) \<and>
        (\<forall>mapping. ClientMapping cfg = Some mapping \<and> mapping (ProjectName m) = None \<longrightarrow>
            ClientName m = DefaultClientName cfg)"
    by auto
qed

lemma TrimSpace_Initech: "TrimSpace ''Initech'' = ''Initech''"
  by code_simp

theorem client_precedence_witness:
  "\<exists>m. ParseTaskName mappedConfig ''Initech/TASK7'' = Inr m \<and> ProjectName m = ''Initech'' \<and>
       ClientName m = ''Initech Ltd''"
  using client_precedence [of "''Initech''" "''7''" mappedConfig]
  by (auto simp: isDigit_def mappedConfig_def TrimSpace_Initech)

section \<open>Webhook names: properties\<close>

lemma allowedRunes_ascii: "\<forall>c\<in>set allowedRunes. (of_char c :: nat) < 0x80"
  by (simp add: allowedRunes_def)

lemma length_allowedRunes: "length allowedRunes = 62"
  by (simp add: allowedRunes_def)

lemma randomRune_ascii:
  "(of_char (allowedRunes ! seededRandInt e (length allowedRunes)) :: nat) < 0x80"
proof -
  have "seededRandInt e (length allowedRunes) < length allowedRunes"
    by (simp add: seededRandInt_def length_allowedRunes)
  then have "allowedRunes ! seededRandInt e (length allowedRunes) \<in> set allowedRunes"
    by (rule nth_mem)
  with allowedRunes_ascii show ?thesis by blast
qed

lemma runesString_ascii:
  "\<forall>r\<in>set rs. r < 0x80 \<Longrightarrow> runesString rs = map char_of rs"
  by (induction rs) (simp_all add: runesString_def encodeRune_def)

lemma randomPart_string:
  "runesString (map (\<lambda>i. (of_char (allowedRunes !
       seededRandInt (draws i) (length allowedRunes)) :: nat)) [0 ..< 6]) = randomPart draws"
proof -
  have "\<forall>r\<in>set (map (\<lambda>i. (of_char (allowedRunes !
          seededRandInt (draws i) (length allowedRunes)) :: nat)) [0 ..< 6]). r < 0x80"
    using randomRune_ascii by auto
  from runesString_ascii [OF this] show ?thesis
    by (simp add: randomPart_def comp_def)
qed

text \<open>
  C8.  For every workspace name (any bytes: empty, control characters, multi-byte or
  ill-formed encodings), every lower-case table and every outcome of the random draws,
  the webhook name has at most 30 bytes; it is the first 30 bytes of the sanitized
  prefix, a hyphen, six characters drawn from the allowed ones, and \<open>-wh\<close>.
\<close>

theorem makeWebhookName_bound:
  "length (makeWebhookName lowerTable draws workspaceName) \<le> 30 \<and>
   makeWebhookName lowerTable draws workspaceName =
     take 30 (sanitized lowerTable workspaceName @ ''-'' @ randomPart draws @ ''-wh'') \<and>
   length (randomPart draws) = 6 \<and> set (randomPart draws) \<subseteq> set allowedRunes"
proof (intro conjI)
  have t: "(if length workspaceName > 20 then take 20 workspaceName else workspaceName) =
             take 20 workspaceName"
    by simp
  show e: "makeWebhookName lowerTable draws workspaceName =
     take 30 (sanitized lowerTable workspaceName @ ''-'' @ randomPart draws @ ''-wh'')"
    unfolding makeWebhookName_def Let_def t randomPart_string sanitized_def
    by simp
  show "length (makeWebhookName lowerTable draws workspaceName) \<le> 30"
    unfolding e by simp
  show "length (randomPart draws) = 6" by (simp add: randomPart_def)
  show "set (randomPart draws) \<subseteq> set allowedRunes"
    unfolding randomPart_def using length_allowedRunes by (auto simp: seededRandInt_def)
qed

theorem makeWebhookName_bound_witness:
  "length (makeWebhookName (\<lambda>r. r) (\<lambda>i. 7 * i) ''ABCDEFGHIJKLMNOPQRSTUVWXYZ'') \<le> 30 \<and>
   length (randomPart (\<lambda>i. 7 * i)) = 6"
  using makeWebhookName_bound [of "\<lambda>r. r" "\<lambda>i. 7 * i" "''ABCDEFGHIJKLMNOPQRSTUVWXYZ''"]
  by simp

section \<open>The dispatcher: properties\<close>

lemma map_of_eventToObject:
  "map_of eventToObject event =
     (if event = NewTimerStartedEvent \<or> event = TimerStoppedEvent
        then Some (TimeEntryObject zeroTimeEntry)
      else if event = NewClientEvent then Some (ClientObject zeroClient)
      else if event = NewProjectEvent then Some (ProjectObject zeroProject)
      else if event = NewTagEvent then Some (TagObject zeroTag)
      else None)"
  by (simp add: eventToObject_def)

lemma decode_registered:
  assumes "map_of eventToObject event = Some objTemplate"
  shows "Unmarshal dec body (cloneObject objTemplate) = decodeFor dec event body"
proof -
  let ?te = "event = NewTimerStartedEvent \<or> event = TimerStoppedEvent"
  from assms consider
      (timeEntry) "?te" "objTemplate = TimeEntryObject zeroTimeEntry"
    | (client) "\<not> ?te" "event = NewClientEvent" "objTemplate = ClientObject zeroClient"
    | (project) "\<not> ?te" "event \<noteq> NewClientEvent" "event = NewProjectEvent"
        "objTemplate = ProjectObject zeroProject"
    | (tag) "\<not> ?te" "event \<noteq> NewClientEvent" "event \<noteq> NewProjectEvent"
        "objTemplate = TagObject zeroTag"
    unfolding map_of_eventToObject by (auto split: if_splits)
  then show ?thesis
  proof cases
    case timeEntry
    then show ?thesis unfolding decodeFor_def by (simp add: Unmarshal_def cloneObject_def)
  next
    case client
    then show ?thesis unfolding decodeFor_def by (simp add: Unmarshal_def cloneObject_def)
  next
    case project
    then show ?thesis unfolding decodeFor_def by (simp add: Unmarshal_def cloneObject_def)
  next
    case tag
    then show ?thesis unfolding decodeFor_def by (simp add: Unmarshal_def cloneObject_def)
  qed
qed

lemma Get_empty_iff:
  "Get h key = [] \<longleftrightarrow> h key = None \<or> h key = Some [] \<or> (\<exists>vs. h key = Some ([] # vs))"
  by (auto simp: Get_def split: option.splits list.splits)

lemma supported_iff: "map_of eventToObject event = None \<longleftrightarrow> event \<notin> set supportedEvents"
  by (auto simp: map_of_eventToObject supportedEvents_def)

text \<open>
  C7, as stated, fails: a delivery whose event-type header is present with an empty
  value is answered with the missing-event-type error.
\<close>

theorem ProcessWebhook_counterexample:
  "Header emptyEventRequest ''Clockify-Webhook-Event-Type'' = Some [[]] \<and>
   ProcessWebhook demoDecoder emptyEventRequest =
     ([], None, Some ''missing Clockify-Webhook-Event-Type header'')"
  by (simp add: emptyEventRequest_def ProcessWebhook_def Get_def)

text \<open>
  C7, amended.  \<open>ProcessWebhook\<close> fails with the missing-event-type error exactly when
  the event-type header is absent or its first value is empty; otherwise with the
  unsupported-event error exactly when the event type is not one of the five of the
  table; otherwise with the missing-signature error exactly when the signature header
  is absent or its first value is empty; otherwise with a read error when the body
  cannot be read; otherwise with the decode error exactly when decoding the body into a
  new zero value of the struct registered for the event type fails; otherwise it
  returns the event type and that decoded value.
\<close>

theorem ProcessWebhook_contract:
  "(let eventType = Get (Header r) ''Clockify-Webhook-Event-Type'';
        signature = Get (Header r) ''Clockify-Signature''
    in ProcessWebhook dec r =
        (if eventType = [] then ([], None, Some ''missing Clockify-Webhook-Event-Type header'')
         else if eventType \<notin> set supportedEvents
           then (eventType, None, Some (''unsupported event type: '' @ eventType))
         else if signature = []
           then (eventType, None, Some ''missing Clockify-Signature header'')
         else (case Body r of
                 Inl err \<Rightarrow> (eventType, None, Some (''failed to read body: '' @ err))
               | Inr body \<Rightarrow>
                   (case decodeFor dec eventType body of
                      Inl err \<Rightarrow> (eventType, None, Some (''failed to unmarshal body: '' @ err))
                    | Inr obj \<Rightarrow> (eventType, Some obj, None))))) \<and>
   (\<forall>key. Get (Header r) key = [] \<longleftrightarrow>
      Header r key = None \<or> Header r key = Some [] \<or> (\<exists>vs. Header r key = Some ([] # vs)))"
proof (intro conjI allI)
  show "let eventType = Get (Header r) ''Clockify-Webhook-Event-Type'';
        signature = Get (Header r) ''Clockify-Signature''
    in ProcessWebhook dec r =
        (if eventType = [] then ([], None, Some ''missing Clockify-Webhook-Event-Type header'')
         else if eventType \<notin> set supportedEvents
           then (eventType, None, Some (''unsupported event type: '' @ eventType))
         else if signature = []
           then (eventType, None, Some ''missing Clockify-Signature header'')
         else (case Body r of
                 Inl err \<Rightarrow> (eventType, None, Some (''failed to read body: '' @ err))
               | Inr body \<Rightarrow>
                   (case decodeFor dec eventType body of
                      Inl err \<Rightarrow> (eventType, None, Some (''failed to unmarshal body: '' @ err))
                    | Inr obj \<Rightarrow> (eventType, Some obj, None))))"
  proof (cases "map_of eventToObject (Get (Header r) ''Clockify-Webhook-Event-Type'')")
    case None
    then show ?thesis
      using supported_iff [of "Get (Header r) ''Clockify-Webhook-Event-Type''"]
      by (simp add: ProcessWebhook_def Let_def)
  next
    case (Some objTemplate)
    then show ?thesis
      using supported_iff [of "Get (Header r) ''Clockify-Webhook-Event-Type''"]
        decode_registered [OF Some, of dec]
      by (simp add: ProcessWebhook_def Let_def verifyClockifySignature_def split: sum.splits)
  qed
next
  fix key
  show "Get (Header r) key = [] \<longleftrightarrow>
      Header r key = None \<or> Header r key = Some [] \<or> (\<exists>vs. Header r key = Some ([] # vs))"
    by (rule Get_empty_iff)
qed

theorem ProcessWebhook_contract_witness:
  "ProcessWebhook demoDecoder newClientRequest =
     (''NEW_CLIENT'', Some (ClientObject zeroClient), None)"
  using ProcessWebhook_contract [of newClientRequest demoDecoder]
  by (simp add: newClientRequest_def Get_def supportedEvents_def decodeFor_def demoDecoder_def
      NewTimerStartedEvent_def TimerStoppedEvent_def NewClientEvent_def
      NewProjectEvent_def NewTagEvent_def Let_def)

section \<open>The migration: properties\<close>

subsection \<open>Frames of the steps\<close>

lemma extends_refl [simp]: "extends m m"
  by (simp add: extends_def)

lemma extends_trans: "extends m1 m2 \<Longrightarrow> extends m2 m3 \<Longrightarrow> extends m1 m3"
  unfolding extends_def by (auto intro: map_le_trans)

lemma frame_refl [simp]: "frame m c m c"
  by (simp add: frame_def)

lemma frame_trans:
  assumes "frame m1 c1 m2 c2" "frame m2 c2 m3 c3"
  shows "frame m1 c1 m3 c3"
proof -
  from assms(1) obtain k1 where k1: "c2 = c1 @ k1"
    "DryRun (config m1) \<longrightarrow> filter isCreateOrDelete k1 = [] \<and> stats m2 = stats m1"
    unfolding frame_def by blast
  from assms(2) obtain k2 where k2: "c3 = c2 @ k2"
    "DryRun (config m2) \<longrightarrow> filter isCreateOrDelete k2 = [] \<and> stats m3 = stats m2"
    unfolding frame_def by blast
  have cfg: "config m2 = config m1" using assms(1) by (simp add: frame_def extends_def)
  have "c3 = c1 @ (k1 @ k2)" using k1 k2 by simp
  moreover have "DryRun (config m1) \<longrightarrow>
      filter isCreateOrDelete (k1 @ k2) = [] \<and> stats m3 = stats m1"
    using k1 k2 cfg by simp
  moreover have "extends m1 m3"
    using assms extends_trans unfolding frame_def by blast
  ultimately show ?thesis
    using assms unfolding frame_def by (metis (no_types, lifting))
qed

lemma IterPages_rule:
  assumes it: "IterPages limit mk listing body page s c = (r, s', c')"
    and P: "P s"
    and step: "\<And>x s r s'. P s \<Longrightarrow> body x s = (r, s') \<Longrightarrow> Q r s' \<and> (r = None \<longrightarrow> P s')"
    and stop: "\<And>s. P s \<Longrightarrow> Q None s"
  shows "Q r s'"
  using it P step stop
proof (induction limit mk listing body page s c rule: IterPages.induct)
  case (1 limit mk listing body page s c)
  note unfold = IterPages.simps [of limit mk listing body page s c]
  note run = "1.prems"(1) and P = "1.prems"(2) and step = "1.prems"(3) and stop = "1.prems"(4)
  show ?case
  proof (cases "getPage limit mk listing page c")
    case (Pair x c1)
    show ?thesis
    proof (cases x)
      case (Inl err)
      obtain r1 s1 where b: "body (Inl err) s = (r1, s1)" by fastforce
      with Pair Inl run have "r = r1" "s' = s1"
        by (simp_all add: unfold)
      with step [OF P b] show ?thesis by simp
    next
      case (Inr items)
      show ?thesis
      proof (cases "items = []")
        case True
        with Pair Inr run have "r = None" "s' = s"
          by (simp_all add: unfold)
        with stop [OF P] show ?thesis by simp
      next
        case False
        obtain r1 s1 where b: "body (Inr items) s = (r1, s1)" by fastforce
        note st = step [OF P b]
        show ?thesis
        proof (cases r1)
          case None
          with Pair Inr False b run
          have next_run: "IterPages limit mk listing body (Suc page) s1 c1 = (r, s', c')"
            by (simp add: unfold)
          from st None have P1: "P s1" by simp
          show ?thesis
            by (rule "1.IH" [OF Pair [symmetric] Inr False b [symmetric] None next_run P1])
              (fact step, fact stop)
        next
          case (Some a)
          with Pair Inr False b run have "r = r1" "s' = s1"
            by (simp_all add: unfold)
          with st show ?thesis by simp
        qed
      qed
    qed
  qed
qed

lemma IterPages_calls:
  assumes "IterPages limit mk listing body page s c = (r, s', c')"
  shows "\<exists>ps. c' = c @ map mk ps"
  using assms
proof (induction limit mk listing body page s c rule: IterPages.induct)
  case (1 limit mk listing body page s c)
  note unfold = IterPages.simps [of limit mk listing body page s c]
  show ?case
  proof (cases "getPage limit mk listing page c")
    case (Pair x c1)
    then have c1: "c1 = c @ map mk [page]" by (simp add: getPage_def)
    show ?thesis
    proof (cases x)
      case (Inl err)
      with Pair "1.prems" have "c' = c1"
        by (auto simp: unfold split: prod.splits)
      with c1 show ?thesis by blast
    next
      case (Inr items)
      show ?thesis
      proof (cases "items = []")
        case True
        with Pair Inr "1.prems" have "c' = c1"
          by (auto simp: unfold)
        with c1 show ?thesis by blast
      next
        case False
        obtain r1 s1 where b: "body (Inr items) s = (r1, s1)" by fastforce
        show ?thesis
        proof (cases r1)
          case None
          with Pair Inr False b "1.prems"(1)
          have "IterPages limit mk listing body (Suc page) s1 c1 = (r, s', c')"
            by (simp add: unfold)
          from "1.IH" [OF Pair [symmetric] Inr False b [symmetric] None this]
          obtain ps where "c' = c1 @ map mk ps" by blast
          with c1 have "c' = c @ map mk (page # ps)" by simp
          then show ?thesis by blast
        next
          case (Some a)
          with Pair Inr False b "1.prems"(1) have "c' = c1"
            by (simp add: unfold)
          with c1 show ?thesis by blast
        qed
      qed
    qed
  qed
qed

lemma no_create_in_pages:
  "filter isCreateOrDelete (map (GetProjectsCall ws) ps) = []"
  "filter isCreateOrDelete (map (GetClientsCall ws) ps) = []"
  "filter isCreateOrDelete (map (GetProjectTasksCall ws pr) ps) = []"
  "filter isCreateOrDelete (map (GetTimeEntriesCall ws u) ps) = []"
  by (simp_all add: filter_empty_conv isCreateOrDelete_def)

lemma map_le_upd: "f k = None \<Longrightarrow> g \<subseteq>\<^sub>m f \<Longrightarrow> g \<subseteq>\<^sub>m f(k \<mapsto> v)"
  by (force simp: map_le_def)

lemma getOrCreateProject_hit:
  "targetProjects m projectName = Some p \<Longrightarrow>
   getOrCreateProject srv projectName clientID m c = (Ok p, m, c)"
  by (simp add: getOrCreateProject_def)

lemma getOrCreateProject_spec:
  assumes run: "getOrCreateProject srv projectName clientID m c = (r, m', c')"
  shows "frame m c m' c' \<and> (\<forall>p. r = Ok p \<longrightarrow> targetProjects m' projectName = Some p) \<and>
         length (filter isCreateOrDelete c') \<le> Suc (length (filter isCreateOrDelete c))"
proof (cases "targetProjects m projectName")
  case (Some p)
  with run show ?thesis by (auto simp: getOrCreateProject_def)
next
  case None
  show ?thesis
  proof (cases "targetWorkspace m")
    case N: None
    with None run show ?thesis by (auto simp: getOrCreateProject_def)
  next
    case (Some tw)
    let ?body = "(\<lambda>page m.
                          case page of
                            Inl err \<Rightarrow> (Some (Err err), m)
                          | Inr projects \<Rightarrow>
                              (case find (\<lambda>proj. Project_Name proj = projectName) projects of
                                 Some proj \<Rightarrow>
                                   (Some (Ok proj),
                                    m\<lparr>targetProjects := (targetProjects m)(projectName \<mapsto> proj)\<rparr>)
                               | None \<Rightarrow> (None, m)))"
    let ?P = "\<lambda>s. extends m s \<and> stats s = stats m \<and> targetProjects s projectName = None"
    let ?Q = "\<lambda>r1 s. extends m s \<and> stats s = stats m \<and>
                (r1 = None \<longrightarrow> targetProjects s projectName = None) \<and>
                (\<forall>p. r1 = Some (Ok p) \<longrightarrow> targetProjects s projectName = Some p)"
    obtain r1 m1 c1 where it: "IterPages (pageLimit srv) (GetProjectsCall (Workspace_ID tw))
                       (\<lambda>h. onGetProjects srv h (Workspace_ID tw)) ?body 1 m c = (r1, m1, c1)"
      using prod_cases3 by blast
    have q: "?Q r1 m1"
    proof (rule IterPages_rule [OF it, where P = ?P and Q = ?Q])
      show "?P m" using None by simp
    next
      fix x s r s'
      assume "?P s" and "?body x s = (r, s')"
      then show "?Q r s' \<and> (r = None \<longrightarrow> ?P s')"
        by (auto simp: extends_def map_le_upd split: sum.splits option.splits)
    next
      fix s assume "?P s" then show "?Q None s" by simp
    qed
    from IterPages_calls [OF it] obtain ps where
      c1: "c1 = c @ map (GetProjectsCall (Workspace_ID tw)) ps" by blast
    have f1: "frame m c m1 c1"
      unfolding frame_def using q c1 by (simp add: no_create_in_pages)
    have cfg: "config m1 = config m" "targetWorkspace m1 = targetWorkspace m"
      using q by (simp_all add: extends_def)
    show ?thesis
    proof (cases r1)
      case (Some r2)
      with run None \<open>targetWorkspace m = Some tw\<close> it have "r = r2" "m' = m1" "c' = c1"
        by (simp_all add: getOrCreateProject_def)
      with f1 q Some c1 show ?thesis by (simp add: no_create_in_pages)
    next
      case N1: None
      with q have nc: "targetProjects m1 projectName = None" by simp
      have run1: "(r, m', c') =
         (if DryRun (config m1) then
                      (let dummyProject =
                             \<lparr>Project_ID = ''dummy'', Project_Name = projectName,
                              Project_ClientID = clientID, Project_ClientName = [],
                              Project_WorkspaceID = [], Project_Billable = False,
                              Project_Public = False, Project_Archived = False,
                              Project_Color = [], Project_Note = []\<rparr>
                       in (Ok dummyProject,
                           m1\<lparr>targetProjects := (targetProjects m1)(projectName \<mapsto> dummyProject)\<rparr>,
                           c1))
                    else
                      (case CreateProject srv (Workspace_ID tw) projectName c1 of
                         (Inl err, c'') \<Rightarrow> (Err err, m1, c'')
                       | (Inr project, c'') \<Rightarrow>
                           (Ok project,
                            m1\<lparr>targetProjects := (targetProjects m1)(projectName \<mapsto> project),
                               stats := (stats m1)\<lparr>ProjectsCreated :=
                                                      ProjectsCreated (stats m1) + 1\<rparr>\<rparr>,
                            c'')))"
        using run None \<open>targetWorkspace m = Some tw\<close> it N1
        by (simp add: getOrCreateProject_def)
      have "frame m1 c1 m' c' \<and> (\<forall>p. r = Ok p \<longrightarrow> targetProjects m' projectName = Some p) \<and>
            length (filter isCreateOrDelete c') \<le> Suc (length (filter isCreateOrDelete c1))"
      proof (cases "DryRun (config m1)")
        case True
        with run1 show ?thesis
          by (simp add: Let_def frame_def extends_def map_le_upd nc)
      next
        case False
        with run1 show ?thesis
          by (auto simp: frame_def extends_def map_le_upd nc CreateProject_def split: sum.splits)
      qed
      moreover have "filter isCreateOrDelete c1 = filter isCreateOrDelete c"
        using c1 by (simp add: no_create_in_pages)
      ultimately show ?thesis using f1 frame_trans by auto
    qed
  qed
qed


lemma getOrCreateTask_hit:
  "targetTasks m (projectID @ ''/'' @ taskName) = Some t \<Longrightarrow>
   getOrCreateTask srv projectID taskName m c = (Ok t, m, c)"
  by (simp add: getOrCreateTask_def Let_def)

lemma getOrCreateTask_spec:
  assumes run: "getOrCreateTask srv projectID taskName m c = (r, m', c')"
  shows "frame m c m' c' \<and>
         (\<forall>t. r = Ok t \<longrightarrow> targetTasks m' (projectID @ ''/'' @ taskName) = Some t) \<and>
         length (filter isCreateOrDelete c') \<le> Suc (length (filter isCreateOrDelete c))"
proof -
  define key where "key = projectID @ ''/'' @ taskName"
  note run0 = run [unfolded getOrCreateTask_def Let_def, folded key_def]
  have "frame m c m' c' \<and> (\<forall>t. r = Ok t \<longrightarrow> targetTasks m' key = Some t) \<and>
         length (filter isCreateOrDelete c') \<le> Suc (length (filter isCreateOrDelete c))"
  proof (cases "targetTasks m key")
    case (Some t)
    with run0 show ?thesis by auto
  next
    case None
    show ?thesis
    proof (cases "targetWorkspace m")
      case N: None
      with None run0 show ?thesis by auto
    next
      case (Some tw)
      let ?body = "(\<lambda>page m.
                            case page of
                              Inl err \<Rightarrow> (Some (Err err), m)
                            | Inr tasks \<Rightarrow>
                                (case find (\<lambda>task. Task_Name task = taskName) tasks of
                                   Some task \<Rightarrow>
                                     (Some (Ok task),
                                      m\<lparr>targetTasks := (targetTasks m)(key \<mapsto> task)\<rparr>)
                                 | None \<Rightarrow> (None, m)))"
      let ?P = "\<lambda>s. extends m s \<and> stats s = stats m \<and> targetTasks s key = None"
      let ?Q = "\<lambda>r1 s. extends m s \<and> stats s = stats m \<and>
                  (r1 = None \<longrightarrow> targetTasks s key = None) \<and>
                  (\<forall>t. r1 = Some (Ok t) \<longrightarrow> targetTasks s key = Some t)"
      obtain r1 m1 c1 where it:
        "IterPages (pageLimit srv) (GetProjectTasksCall (Workspace_ID tw) projectID)
           (\<lambda>h. onGetProjectTasks srv h (Workspace_ID tw) projectID) ?body 1 m c = (r1, m1, c1)"
        using prod_cases3 by blast
      have q: "?Q r1 m1"
      proof (rule IterPages_rule [OF it, where P = ?P and Q = ?Q])
        show "?P m" using None by simp
      next
        fix x s r s'
        assume "?P s" and "?body x s = (r, s')"
        then show "?Q r s' \<and> (r = None \<longrightarrow> ?P s')"
          by (auto simp: extends_def map_le_upd split: sum.splits option.splits)
      next
        fix s assume "?P s" then show "?Q None s" by simp
      qed
      from IterPages_calls [OF it] obtain ps where
        c1: "c1 = c @ map (GetProjectTasksCall (Workspace_ID tw) projectID) ps" by blast
      have f1: "frame m c m1 c1"
        unfolding frame_def using q c1 by (simp add: no_create_in_pages)
      show ?thesis
      proof (cases r1)
        case (Some r2)
        with run0 None \<open>targetWorkspace m = Some tw\<close> it have "r = r2" "m' = m1" "c' = c1"
          by simp_all
        with f1 q Some c1 show ?thesis by (simp add: no_create_in_pages)
      next
        case N1: None
        with q have nc: "targetTasks m1 key = None" by simp
        have run1: "(r, m', c') =
           (if DryRun (config m1) then
              (Ok \<lparr>Task_ID = ''dummy'', Task_Name = taskName,
                    Task_ProjectID = projectID, Task_Status = [], Task_Estimate = []\<rparr>,
               m1\<lparr>targetTasks := (targetTasks m1)(key \<mapsto>
                     \<lparr>Task_ID = ''dummy'', Task_Name = taskName,
                      Task_ProjectID = projectID, Task_Status = [], Task_Estimate = []\<rparr>)\<rparr>,
               c1)
            else
              (case CreateTask srv (Workspace_ID tw) projectID taskName c1 of
                 (Inl err, c'') \<Rightarrow> (Err err, m1, c'')
               | (Inr task, c'') \<Rightarrow>
                   (Ok task,
                    m1\<lparr>targetTasks := (targetTasks m1)(key \<mapsto> task),
                       stats := (stats m1)\<lparr>TasksCreated := TasksCreated (stats m1) + 1\<rparr>\<rparr>,
                    c'')))"
          using run0 None \<open>targetWorkspace m = Some tw\<close> it N1
          by simp
        have "frame m1 c1 m' c' \<and> (\<forall>t. r = Ok t \<longrightarrow> targetTasks m' key = Some t) \<and>
              length (filter isCreateOrDelete c') \<le> Suc (length (filter isCreateOrDelete c1))"
        proof (cases "DryRun (config m1)")
          case True
          with run1 show ?thesis
            by (simp add: frame_def extends_def map_le_upd nc)
        next
          case False
          with run1 show ?thesis
            by (auto simp: frame_def extends_def map_le_upd nc CreateTask_def split: sum.splits)
        qed
        moreover have "filter isCreateOrDelete c1 = filter isCreateOrDelete c"
          using c1 by (simp add: no_create_in_pages)
        ultimately show ?thesis using f1 frame_trans by auto
      qed
    qed
  qed
  then show ?thesis unfolding key_def .
qed

lemma getOrCreateClient_hit:
  "targetClients m clientName = Some cl \<Longrightarrow>
   getOrCreateClient srv clientName m c = (Ok cl, m, c)"
  by (simp add: getOrCreateClient_def)

lemma getOrCreateClient_spec:
  assumes run: "getOrCreateClient srv clientName m c = (r, m', c')"
  shows "frame m c m' c' \<and>
         (\<forall>cl. r = Ok cl \<and> \<not> DryRun (config m) \<longrightarrow> targetClients m' clientName = Some cl) \<and>
         length (filter isCreateOrDelete c') \<le> Suc (length (filter isCreateOrDelete c))"
proof (cases "targetClients m clientName")
  case (Some cl)
  with run show ?thesis by (auto simp: getOrCreateClient_def)
next
  case None
  with run show ?thesis
    by (auto simp: getOrCreateClient_def frame_def extends_def map_le_upd CreateClient_def
        split: if_splits option.splits sum.splits)
qed

lemma createTargetTimeEntry_spec:
  assumes run: "createTargetTimeEntry srv sourceEntry targetProjectID targetTaskID m c = (r, m', c')"
  shows "frame m c m' c'"
  using run
  by (auto simp: createTargetTimeEntry_def frame_def Let_def CreateTimeEntryForUser_def
      extends_def split: if_splits option.splits sum.splits)

lemma getSourceTask_spec:
  assumes run: "getSourceTask srv taskID m c = (r, m', c')"
  shows "frame m c m' c'"
proof (cases "taskID = []")
  case True
  with run show ?thesis by (simp add: getSourceTask_def)
next
  case False
  show ?thesis
  proof (cases "sourceWorkspace m")
    case None
    with run False show ?thesis by (simp add: getSourceTask_def)
  next
    case sw: (Some sw)
    show ?thesis
    proof (cases "sourceProject m")
      case None
      with run False sw show ?thesis by (simp add: getSourceTask_def)
    next
      case sp: (Some sp)
      let ?body = "(\<lambda>page (u::unit).
                        case page of
                          Inl err \<Rightarrow> (Some (Err err), u)
                        | Inr tasks \<Rightarrow>
                            (case find (\<lambda>task. Task_ID task = taskID) tasks of
                               Some task \<Rightarrow> (Some (Ok task), u)
                             | None \<Rightarrow> (None, u)))"
      obtain r1 u1 c1 where it:
        "IterPages (pageLimit srv) (GetProjectTasksCall (Workspace_ID sw) (Project_ID sp))
           (\<lambda>h. onGetProjectTasks srv h (Workspace_ID sw) (Project_ID sp)) ?body 1 () c = (r1, u1, c1)"
        using prod_cases3 by blast
      from IterPages_calls [OF it] obtain ps where
        c1: "c1 = c @ map (GetProjectTasksCall (Workspace_ID sw) (Project_ID sp)) ps" by blast
      from run False sw sp it have "m' = m" "c' = c1"
        by (auto simp: getSourceTask_def split: option.splits)
      with c1 show ?thesis by (simp add: frame_def no_create_in_pages)
    qed
  qed
qed

lemma orReturn_frame:
  assumes "orReturn (f m c) wrap k = (r, m', c')"
    and "\<And>x m1 c1. f m c = (x, m1, c1) \<Longrightarrow> frame m c m1 c1"
    and "\<And>v m1 c1. k v m1 c1 = (r, m', c') \<Longrightarrow> frame m1 c1 m' c'"
  shows "frame m c m' c'"
proof -
  obtain x m1 c1 where f: "f m c = (x, m1, c1)" using prod_cases3 by blast
  note f1 = assms(2) [OF f]
  show ?thesis
  proof (cases x)
    case (Ok v)
    with assms(1) f have "k v m1 c1 = (r, m', c')" by (simp add: orReturn_def)
    from frame_trans [OF f1 assms(3) [OF this]] show ?thesis .
  next
    case (Err e)
    with assms(1) f have "m' = m1" "c' = c1" by (simp_all add: orReturn_def)
    with f1 show ?thesis by simp
  next
    case Panic
    with assms(1) f have "m' = m1" "c' = c1" by (simp_all add: orReturn_def)
    with f1 show ?thesis by simp
  next
    case Hang
    with assms(1) f have "m' = m1" "c' = c1" by (simp_all add: orReturn_def)
    with f1 show ?thesis by simp
  qed
qed

lemma processTimeEntry_frame:
  assumes run: "processTimeEntry srv entry m c = (r, m', c')"
  shows "frame m c m' c'"
  using run unfolding processTimeEntry_def
  by (auto elim!: orReturn_frame
      simp: getSourceTask_spec getOrCreateClient_spec getOrCreateProject_spec
        getOrCreateTask_spec createTargetTimeEntry_spec
      split: sum.splits)

lemma processBatch_Nil: "processBatch srv [] m c = (Ok (), m, c)"
  by simp

text \<open>Processing a batch never returns an error, and keeps the configuration.\<close>

lemma processBatch_spec:
  assumes "processBatch srv timeEntries m c = (r, m', c')"
  shows "extends m m' \<and> r \<noteq> Err e \<and>
         (\<exists>calls. c' = c @ calls \<and>
            (DryRun (config m) \<longrightarrow>
               filter isCreateOrDelete calls = [] \<and>
               TimeEntriesCreated (stats m') = TimeEntriesCreated (stats m) \<and>
               ProjectsCreated (stats m') = ProjectsCreated (stats m) \<and>
               TasksCreated (stats m') = TasksCreated (stats m) \<and>
               ClientsCreated (stats m') = ClientsCreated (stats m)))"
  using assms
proof (induction timeEntries arbitrary: m c)
  case Nil
  then show ?case by auto
next
  case (Cons entry timeEntries)
  obtain x m1 c1 where p: "processTimeEntry srv entry m c = (x, m1, c1)"
    using prod_cases3 by blast
  note f = processTimeEntry_frame [OF p]
  from f obtain k1 where k1: "c1 = c @ k1"
    "DryRun (config m) \<longrightarrow> filter isCreateOrDelete k1 = [] \<and> stats m1 = stats m"
    unfolding frame_def by blast
  from f have e1: "extends m m1" by (simp add: frame_def)
  then have cfg: "config m1 = config m" by (simp add: extends_def)
  show ?case
  proof (cases x)
    case (Ok u)
    let ?m2 = "m1\<lparr>stats := (stats m1)\<lparr>TimeEntriesProcessed :=
                                       TimeEntriesProcessed (stats m1) + 1\<rparr>\<rparr>"
    from Cons.prems p Ok have "processBatch srv timeEntries ?m2 c1 = (r, m', c')" by simp
    from Cons.IH [OF this] obtain k2 where ih: "extends ?m2 m'" "r \<noteq> Err e" "c' = c1 @ k2"
            "DryRun (config ?m2) \<longrightarrow>
               filter isCreateOrDelete k2 = [] \<and>
               TimeEntriesCreated (stats m') = TimeEntriesCreated (stats ?m2) \<and>
               ProjectsCreated (stats m') = ProjectsCreated (stats ?m2) \<and>
               TasksCreated (stats m') = TasksCreated (stats ?m2) \<and>
               ClientsCreated (stats m') = ClientsCreated (stats ?m2)"
      by blast
    have "extends m1 ?m2" by (simp add: extends_def)
    with e1 ih(1) have "extends m m'" using extends_trans by blast
    moreover have "c' = c @ (k1 @ k2)" using k1 ih by simp
    ultimately show ?thesis using ih k1 cfg by auto
  next
    case (Err err)
    let ?m2 = "m1\<lparr>stats := (stats m1)\<lparr>Errors := Errors (stats m1) @
                 [''Failed to process entry '' @ TimeEntry_ID entry @ '': '' @ err]\<rparr>\<rparr>"
    from Cons.prems p Err have "processBatch srv timeEntries ?m2 c1 = (r, m', c')" by simp
    from Cons.IH [OF this] obtain k2 where ih: "extends ?m2 m'" "r \<noteq> Err e" "c' = c1 @ k2"
            "DryRun (config ?m2) \<longrightarrow>
               filter isCreateOrDelete k2 = [] \<and>
               TimeEntriesCreated (stats m') = TimeEntriesCreated (stats ?m2) \<and>
               ProjectsCreated (stats m') = ProjectsCreated (stats ?m2) \<and>
               TasksCreated (stats m') = TasksCreated (stats ?m2) \<and>
               ClientsCreated (stats m') = ClientsCreated (stats ?m2)"
      by blast
    have "extends m1 ?m2" by (simp add: extends_def)
    with e1 ih(1) have "extends m m'" using extends_trans by blast
    moreover have "c' = c @ (k1 @ k2)" using k1 ih by simp
    ultimately show ?thesis using ih k1 cfg by auto
  next
    case Panic
    with Cons.prems p have "r = Panic" "m' = m1" "c' = c1" by simp_all
    with e1 k1 show ?thesis by auto
  next
    case Hang
    with Cons.prems p have "r = Hang" "m' = m1" "c' = c1" by simp_all
    with e1 k1 show ?thesis by auto
  qed
qed

text \<open>
  With a positive batch size, processing in batches is processing the whole list in
  order.
\<close>

lemma processBatch_append:
  "processBatch srv (xs @ ys) m c =
     (case processBatch srv xs m c of
        (Ok u, m', c') \<Rightarrow> processBatch srv ys m' c'
      | (Err e, m', c') \<Rightarrow> (Err e, m', c')
      | (Panic, m', c') \<Rightarrow> (Panic, m', c')
      | (Hang, m', c') \<Rightarrow> (Hang, m', c'))"
proof (induction xs arbitrary: m c)
  case Nil
  show ?case by simp
next
  case (Cons x xs)
  obtain r m1 c1 where p: "processTimeEntry srv x m c = (r, m1, c1)"
    using prod_cases3 by blast
  show ?case
    by (cases r) (simp_all add: p Cons.IH)
qed

lemma processTimeEntries_eq:
  "0 < BatchSize (config m) \<Longrightarrow>
   processTimeEntries srv timeEntries i m c = processBatch srv (drop i timeEntries) m c"
proof (induction srv timeEntries i m c rule: processTimeEntries.induct)
  case (1 srv timeEntries i m c)
  note unfold = processTimeEntries.simps [of srv timeEntries i m c]
  show ?case
  proof (cases "i < length timeEntries")
    case False
    then show ?thesis by (simp add: unfold)
  next
    case True
    let ?n = "nat (BatchSize (config m))"
    let ?end = "min (i + ?n) (length timeEntries)"
    let ?batch = "take (?end - i) (drop i timeEntries)"
    have b: "?batch = take ?n (drop i timeEntries)"
      using True by (simp add: min_def)
    have "drop i timeEntries = take ?n (drop i timeEntries) @ drop ?n (drop i timeEntries)"
      by (simp only: append_take_drop_id)
    then have split: "drop i timeEntries = ?batch @ drop (i + ?n) timeEntries"
      by (simp only: b drop_drop add.commute)
    obtain r m1 c1 where pb: "processBatch srv ?batch m c = (r, m1, c1)"
      using prod_cases3 by blast
    from processBatch_spec [OF pb] have e: "extends m m1" and ne: "\<And>e. r \<noteq> Err e"
      by blast+
    then have cfg: "config m1 = config m" by (simp add: extends_def)
    have lhs: "processTimeEntries srv timeEntries i m c =
       (case r of Ok u \<Rightarrow> processTimeEntries srv timeEntries (i + ?n) m1 c1
        | Err err \<Rightarrow> (Err (''failed to process batch '' @ decimal (i + 1) @ ''-'' @ decimal ?end @
                         '': '' @ err), m1, c1)
        | Panic \<Rightarrow> (Panic, m1, c1) | Hang \<Rightarrow> (Hang, m1, c1))"
      using True "1.prems" pb by (simp add: unfold Let_def split: outcome.splits)
    have rhs: "processBatch srv (drop i timeEntries) m c =
       (case r of Ok u \<Rightarrow> processBatch srv (drop (i + ?n) timeEntries) m1 c1
        | Err e \<Rightarrow> (Err e, m1, c1) | Panic \<Rightarrow> (Panic, m1, c1) | Hang \<Rightarrow> (Hang, m1, c1))"
      by (subst split, subst processBatch_append) (simp add: pb split: outcome.splits)
    show ?thesis
    proof (cases r)
      case (Ok u)
      have nb: "\<not> BatchSize (config m) < 0" "BatchSize (config m) \<noteq> 0"
        using "1.prems" by simp_all
      have pos: "0 < BatchSize (config m1)" using cfg "1.prems" by simp
      have "processTimeEntries srv timeEntries (i + ?n) m1 c1 =
            processBatch srv (drop (i + ?n) timeEntries) m1 c1"
        by (rule "1.IH" [OF True nb refl refl pb [symmetric] Ok refl pos])
      with lhs rhs Ok show ?thesis by simp
    next
      case (Err e)
      with ne show ?thesis by blast
    next
      case Panic
      with lhs rhs show ?thesis by simp
    next
      case Hang
      with lhs rhs show ?thesis by simp
    qed
  qed
qed

lemma outcome_kinds [simp]:
  "succeeded (Ok u)" "\<not> failed (Ok u)" "failed (Err e)" "\<not> succeeded (Err e)"
  "\<not> failed Panic" "\<not> succeeded Panic" "\<not> failed Hang" "\<not> succeeded Hang"
  by (simp_all add: succeeded_def failed_def)

lemma processBatch_outcomes:
  assumes "\<forall>x\<in>set (entryOutcomes srv timeEntries m c). failed x \<or> succeeded x"
  shows "\<exists>m' c'. processBatch srv timeEntries m c = (Ok (), m', c') \<and>
     TimeEntriesProcessed (stats m') =
       TimeEntriesProcessed (stats m) +
       int (length (filter succeeded (entryOutcomes srv timeEntries m c))) \<and>
     Errors (stats m') =
       Errors (stats m) @ errorLines timeEntries (entryOutcomes srv timeEntries m c) \<and>
     length (entryOutcomes srv timeEntries m c) = length timeEntries \<and>
     length (errorLines timeEntries (entryOutcomes srv timeEntries m c)) =
       length (filter failed (entryOutcomes srv timeEntries m c))"
  using assms
proof (induction timeEntries arbitrary: m c)
  case Nil
  show ?case by simp
next
  case (Cons entry timeEntries)
  obtain x m1 c1 where p: "processTimeEntry srv entry m c = (x, m1, c1)"
    using prod_cases3 by blast
  from processTimeEntry_frame [OF p]
  have keep: "Errors (stats m1) = Errors (stats m)"
    "TimeEntriesProcessed (stats m1) = TimeEntriesProcessed (stats m)"
    by (simp_all add: frame_def)
  show ?case
  proof (cases x)
    case (Ok u)
    let ?m2 = "m1\<lparr>stats := (stats m1)\<lparr>TimeEntriesProcessed :=
                                       TimeEntriesProcessed (stats m1) + 1\<rparr>\<rparr>"
    have o: "entryOutcomes srv (entry # timeEntries) m c =
               Ok u # entryOutcomes srv timeEntries ?m2 c1"
      by (simp add: p Ok)
    have "\<forall>x\<in>set (entryOutcomes srv timeEntries ?m2 c1). failed x \<or> succeeded x"
      using Cons.prems unfolding o by simp
    from Cons.IH [OF this] obtain m' c' where
      ih: "processBatch srv timeEntries ?m2 c1 = (Ok (), m', c')"
        "TimeEntriesProcessed (stats m') =
           TimeEntriesProcessed (stats ?m2) +
           int (length (filter succeeded (entryOutcomes srv timeEntries ?m2 c1)))"
        "Errors (stats m') =
           Errors (stats ?m2) @ errorLines timeEntries (entryOutcomes srv timeEntries ?m2 c1)"
        "length (entryOutcomes srv timeEntries ?m2 c1) = length timeEntries"
        "length (errorLines timeEntries (entryOutcomes srv timeEntries ?m2 c1)) =
           length (filter failed (entryOutcomes srv timeEntries ?m2 c1))"
      by blast
    have pb: "processBatch srv (entry # timeEntries) m c = (Ok (), m', c')"
      using ih(1) by (simp add: p Ok)
    show ?thesis
      unfolding o pb using ih(2-5) keep by simp
  next
    case (Err err)
    let ?m2 = "m1\<lparr>stats := (stats m1)\<lparr>Errors := Errors (stats m1) @
                 [''Failed to process entry '' @ TimeEntry_ID entry @ '': '' @ err]\<rparr>\<rparr>"
    have o: "entryOutcomes srv (entry # timeEntries) m c =
               Err err # entryOutcomes srv timeEntries ?m2 c1"
      by (simp add: p Err)
    have "\<forall>x\<in>set (entryOutcomes srv timeEntries ?m2 c1). failed x \<or> succeeded x"
      using Cons.prems unfolding o by simp
    from Cons.IH [OF this] obtain m' c' where
      ih: "processBatch srv timeEntries ?m2 c1 = (Ok (), m', c')"
        "TimeEntriesProcessed (stats m') =
           TimeEntriesProcessed (stats ?m2) +
           int (length (filter succeeded (entryOutcomes srv timeEntries ?m2 c1)))"
        "Errors (stats m') =
           Errors (stats ?m2) @ errorLines timeEntries (entryOutcomes srv timeEntries ?m2 c1)"
        "length (entryOutcomes srv timeEntries ?m2 c1) = length timeEntries"
        "length (errorLines timeEntries (entryOutcomes srv timeEntries ?m2 c1)) =
           length (filter failed (entryOutcomes srv timeEntries ?m2 c1))"
      by blast
    have pb: "processBatch srv (entry # timeEntries) m c = (Ok (), m', c')"
      using ih(1) by (simp add: p Err)
    show ?thesis
      unfolding o pb using ih(2-5) keep by simp
  next
    case Panic
    then have o: "entryOutcomes srv (entry # timeEntries) m c = [Panic]" by (simp add: p)
    from Cons.prems show ?thesis unfolding o by simp
  next
    case Hang
    then have o: "entryOutcomes srv (entry # timeEntries) m c = [Hang]" by (simp add: p)
    from Cons.prems show ?thesis unfolding o by simp
  qed
qed

lemma FindWorkspaceByName_calls:
  "FindWorkspaceByName srv name c = (r, c') \<Longrightarrow> c' = c @ [GetWorkspacesCall]"
  by (auto simp: FindWorkspaceByName_def GetWorkspaces_def split: sum.splits option.splits)

lemma FindProjectByName_calls:
  assumes "FindProjectByName srv workspaceID name c = (r, c')"
  shows "\<exists>ps. c' = c @ map (GetProjectsCall workspaceID) ps"
proof -
  let ?body = "(\<lambda>page (u::unit).
                case page of
                  Inl err \<Rightarrow> (Some (Inl err), u)
                | Inr projects \<Rightarrow>
                    (case find (\<lambda>proj. Project_Name proj = name) projects of
                       Some proj \<Rightarrow> (Some (Inr proj), u)
                     | None \<Rightarrow> (None, u)))"
  obtain r1 u1 c1 where it: "IterPages (pageLimit srv) (GetProjectsCall workspaceID)
             (\<lambda>h. onGetProjects srv h workspaceID) ?body 1 () c = (r1, u1, c1)"
    using prod_cases3 by blast
  from this assms have "c' = c1"
    by (auto simp: FindProjectByName_def split: option.splits)
  with IterPages_calls [OF it] show ?thesis by simp
qed

lemma GetProjectTimeEntries_calls:
  assumes "GetProjectTimeEntries srv workspaceID projectID userID c = (r, c')"
  shows "\<exists>ps. c' = c @ map (GetTimeEntriesCall workspaceID userID) ps"
proof -
  let ?body = "(\<lambda>page filteredEntries.
                case page of
                  Inl err \<Rightarrow> (Some err, filteredEntries)
                | Inr timeEntries \<Rightarrow>
                    (None, filteredEntries @
                             filter (\<lambda>entry. TimeEntry_ProjectID entry = projectID) timeEntries))"
  obtain r1 u1 c1 where it: "IterPages (pageLimit srv) (GetTimeEntriesCall workspaceID userID)
             (\<lambda>h. onGetTimeEntries srv h workspaceID userID) ?body 1 [] c = (r1, u1, c1)"
    using prod_cases3 by blast
  from this assms have "c' = c1"
    by (auto simp: GetProjectTimeEntries_def split: option.splits)
  with IterPages_calls [OF it] show ?thesis by simp
qed

lemma initFrame_refl [simp]: "initFrame m c m c"
  by (simp add: initFrame_def)

lemma initFrame_trans:
  "initFrame m1 c1 m2 c2 \<Longrightarrow> initFrame m2 c2 m3 c3 \<Longrightarrow> initFrame m1 c1 m3 c3"
  unfolding initFrame_def by (metis append.assoc filter_append append_Nil)

lemma cacheTargetClients_spec:
  assumes run: "cacheTargetClients srv m c = (r, m', c')"
  shows "initFrame m c m' c' \<and> sourceWorkspace m' = sourceWorkspace m \<and>
         targetWorkspace m' = targetWorkspace m \<and> sourceProject m' = sourceProject m \<and>
         currentUser m' = currentUser m"
proof (cases "targetWorkspace m")
  case None
  with run show ?thesis by (simp add: cacheTargetClients_def)
next
  case (Some tw)
  let ?body = "(\<lambda>page m.
                     case page of
                       Inl err \<Rightarrow> (Some (Err err :: unit outcome), m)
                     | Inr clients \<Rightarrow>
                         (None, m\<lparr>targetClients :=
                                    fold (\<lambda>client cache. cache(Client_Name client \<mapsto> client))
                                      clients (targetClients m)\<rparr>))"
  let ?P = "\<lambda>s. config s = config m \<and> stats s = stats m \<and> sourceWorkspace s = sourceWorkspace m \<and>
         targetWorkspace s = targetWorkspace m \<and> sourceProject s = sourceProject m \<and>
         currentUser s = currentUser m"
  obtain r1 m1 c1 where it: "IterPages (pageLimit srv) (GetClientsCall (Workspace_ID tw))
                  (\<lambda>h. onGetClients srv h (Workspace_ID tw)) ?body 1 m c = (r1, m1, c1)"
    using prod_cases3 by blast
  have q: "?P m1"
  proof (rule IterPages_rule [OF it, where P = ?P and Q = "\<lambda>r. ?P"])
    show "?P m" by simp
  next
    fix x s r s'
    assume "?P s" and "?body x s = (r, s')"
    then show "?P s' \<and> (r = None \<longrightarrow> ?P s')"
      by (auto split: sum.splits)
  next
    fix s assume "?P s" then show "?P s" .
  qed
  from IterPages_calls [OF it] obtain ps where
    c1: "c1 = c @ map (GetClientsCall (Workspace_ID tw)) ps" by blast
  from it run Some have "m' = m1" "c' = c1"
    by (auto simp: cacheTargetClients_def split: option.splits)
  with q c1 show ?thesis by (simp add: initFrame_def no_create_in_pages)
qed

lemma getOrCreateTargetWorkspace_spec:
  "getOrCreateTargetWorkspace srv m c = (r, m', c') \<Longrightarrow> m' = m \<and> c' = c @ [GetWorkspacesCall]"
  by (auto simp: getOrCreateTargetWorkspace_def split: prod.splits sum.splits
      dest: FindWorkspaceByName_calls)

lemma initializeWorkspaces_spec:
  assumes run: "initializeWorkspaces srv m c = (r, m', c')"
  shows "initFrame m c m' c' \<and>
         (r = Ok () \<longrightarrow>
            (\<exists>sw sp tw u. sourceWorkspace m' = Some sw \<and> sourceProject m' = Some sp \<and>
               targetWorkspace m' = Some tw \<and> currentUser m' = Some u))"
proof (cases "onGetCurrentUser srv c")
  case (Inl err)
  with run show ?thesis
    by (auto simp: initializeWorkspaces_def GetCurrentUser_def initFrame_def isCreateOrDelete_def)
next
  case (Inr user)
  let ?c1 = "c @ [GetCurrentUserCall]"
  let ?m1 = "m\<lparr>currentUser := Some user\<rparr>"
  have f1: "initFrame m c ?m1 ?c1"
    by (simp add: initFrame_def isCreateOrDelete_def)
  obtain x2 c2 where g2: "FindWorkspaceByName srv (SourceWorkspaceName (config ?m1)) ?c1 = (x2, c2)"
    by fastforce
  from FindWorkspaceByName_calls [OF g2] have f2: "initFrame ?m1 ?c1 ?m1 c2"
    by (simp add: initFrame_def isCreateOrDelete_def)
  show ?thesis
  proof (cases x2)
    case Inl2: (Inl err)
    with run Inr g2 have "m' = ?m1" "c' = c2" "r \<noteq> Ok ()"
      by (auto simp: initializeWorkspaces_def GetCurrentUser_def Let_def)
    with f1 f2 initFrame_trans show ?thesis by blast
  next
    case Inr2: (Inr sourceWs)
    let ?m2 = "?m1\<lparr>sourceWorkspace := Some sourceWs\<rparr>"
    have f2': "initFrame ?m1 ?c1 ?m2 c2"
      using f2 by (simp add: initFrame_def)
    obtain x3 c3 where g3: "FindProjectByName srv (Workspace_ID sourceWs)
                       (SourceProjectName (config ?m2)) c2 = (x3, c3)"
      by fastforce
    from FindProjectByName_calls [OF g3] have f3: "initFrame ?m2 c2 ?m2 c3"
      by (auto simp: initFrame_def no_create_in_pages)
    show ?thesis
    proof (cases x3)
      case Inl3: (Inl err)
      with run Inr g2 Inr2 g3 have "m' = ?m2" "c' = c3" "r \<noteq> Ok ()"
        by (auto simp: initializeWorkspaces_def GetCurrentUser_def Let_def)
      with f1 f2' f3 initFrame_trans show ?thesis by blast
    next
      case Inr3: (Inr sourceProj)
      let ?m3 = "?m2\<lparr>sourceProject := Some sourceProj\<rparr>"
      have f3': "initFrame ?m2 c2 ?m3 c3"
        using f3 by (simp add: initFrame_def)
      obtain x4 m4 c4 where g4: "getOrCreateTargetWorkspace srv ?m3 c3 = (x4, m4, c4)"
        using prod_cases3 by blast
      from getOrCreateTargetWorkspace_spec [OF g4] have m4: "m4 = ?m3" "c4 = c3 @ [GetWorkspacesCall]"
        by simp_all
      then have f4: "initFrame ?m3 c3 m4 c4"
        by (simp add: initFrame_def isCreateOrDelete_def)
      have run4: "(r, m', c') =
          orReturn (x4, m4, c4)
                       (\<lambda>err. ''failed to get/create target workspace: '' @ err)
                       (\<lambda>targetWs m4 c4.
                          orReturn (cacheTargetClients srv (m4\<lparr>targetWorkspace := Some targetWs\<rparr>) c4)
                            (\<lambda>err. ''failed to cache target clients: '' @ err)
                            (\<lambda>_ m5 c5. (Ok (), m5, c5)))"
        using run unfolding initializeWorkspaces_def GetCurrentUser_def Let_def
        by (simp only: Inr g2 Inr2 g3 Inr3 g4 prod.case sum.case)
      have f04: "initFrame m c m4 c4"
        using f1 f2' f3' f4 initFrame_trans by blast
      show ?thesis
      proof (cases x4)
        case (Ok targetWs)
        let ?m4 = "m4\<lparr>targetWorkspace := Some targetWs\<rparr>"
        obtain x5 m5 c5 where g5: "cacheTargetClients srv ?m4 c4 = (x5, m5, c5)"
          using prod_cases3 by blast
        from cacheTargetClients_spec [OF g5] have
          f5: "initFrame ?m4 c4 m5 c5" and
          p5: "sourceWorkspace m5 = Some sourceWs" "sourceProject m5 = Some sourceProj"
              "targetWorkspace m5 = Some targetWs" "currentUser m5 = Some user"
          using m4 by simp_all
        have "initFrame m4 c4 ?m4 c4" by (simp add: initFrame_def)
        with f04 f5 have f05: "initFrame m c m5 c5" using initFrame_trans by blast
        from run4 Ok g5 have "m' = m5" "c' = c5"
          by (auto simp: orReturn_def split: outcome.splits)
        with f05 p5 show ?thesis by simp
      next
        case (Err err)
        with run4 have "m' = m4" "c' = c4" "r \<noteq> Ok ()" by (simp_all add: orReturn_def)
        with f04 show ?thesis by simp
      next
        case Panic
        with run4 have "m' = m4" "c' = c4" "r \<noteq> Ok ()" by (simp_all add: orReturn_def)
        with f04 show ?thesis by simp
      next
        case Hang
        with run4 have "m' = m4" "c' = c4" "r \<noteq> Ok ()" by (simp_all add: orReturn_def)
        with f04 show ?thesis by simp
      qed
    qed
  qed
qed

lemma processTimeEntries_spec:
  assumes "processTimeEntries srv timeEntries i m c = (r, m', c')"
  shows "extends m m' \<and>
         (\<exists>calls. c' = c @ calls \<and>
            (DryRun (config m) \<longrightarrow>
               filter isCreateOrDelete calls = [] \<and>
               TimeEntriesCreated (stats m') = TimeEntriesCreated (stats m) \<and>
               ProjectsCreated (stats m') = ProjectsCreated (stats m) \<and>
               TasksCreated (stats m') = TasksCreated (stats m) \<and>
               ClientsCreated (stats m') = ClientsCreated (stats m)))"
proof (cases "0 < BatchSize (config m)")
  case True
  from assms have "processBatch srv (drop i timeEntries) m c = (r, m', c')"
    by (simp add: processTimeEntries_eq [OF True])
  from processBatch_spec [OF this] show ?thesis by blast
next
  case False
  with assms have "m' = m" "c' = c"
    by (auto simp: processTimeEntries.simps [of srv timeEntries i m c] split: if_splits)
  then show ?thesis by simp
qed

lemma NewMigrationService_config:
  "config (NewMigrationService cfg t0) =
     cfg\<lparr>BatchSize := (if BatchSize cfg \<le> 0 then 50 else BatchSize cfg),
         DefaultClientName := (if DefaultClientName cfg = [] then ''Default Client''
                               else DefaultClientName cfg)\<rparr>"
  by (simp add: NewMigrationService_def Let_def)

lemma ExecuteMigration_spec:
  assumes run: "ExecuteMigration srv now m c = (r, m', c')"
  shows "config m' = config m \<and>
         (\<exists>calls. c' = c @ calls \<and>
            (DryRun (config m) \<longrightarrow>
               filter isCreateOrDelete calls = [] \<and>
               TimeEntriesCreated (stats m') = TimeEntriesCreated (stats m) \<and>
               ProjectsCreated (stats m') = ProjectsCreated (stats m) \<and>
               TasksCreated (stats m') = TasksCreated (stats m) \<and>
               ClientsCreated (stats m') = ClientsCreated (stats m)))"
proof -
  let ?goal = "\<lambda>m c m' c'. config m' = config m \<and>
         (\<exists>calls. c' = c @ calls \<and>
            (DryRun (config m) \<longrightarrow>
               filter isCreateOrDelete calls = [] \<and>
               TimeEntriesCreated (stats m') = TimeEntriesCreated (stats m) \<and>
               ProjectsCreated (stats m') = ProjectsCreated (stats m) \<and>
               TasksCreated (stats m') = TasksCreated (stats m) \<and>
               ClientsCreated (stats m') = ClientsCreated (stats m)))"
  obtain x1 m1 c1 where i: "initializeWorkspaces srv m c = (x1, m1, c1)"
    using prod_cases3 by blast
  from initializeWorkspaces_spec [OF i] have f1: "initFrame m c m1 c1" by simp
  then obtain k1 where k1: "c1 = c @ k1" "filter isCreateOrDelete k1 = []"
    and s1: "config m1 = config m" "stats m1 = stats m"
    unfolding initFrame_def by blast
  have g1: "?goal m c m1 c1" using k1 s1 by simp
  show ?thesis
  proof (cases x1)
    case (Ok u1)
    show ?thesis
    proof (cases "\<exists>sw sp user. sourceWorkspace m1 = Some sw \<and> sourceProject m1 = Some sp \<and>
                     currentUser m1 = Some user")
      case False
      with run i Ok have "m' = m1" "c' = c1"
        by (auto simp: ExecuteMigration_def orReturn_def split: option.splits)
      with g1 show ?thesis by simp
    next
      case True
      then obtain sw sp user where p: "sourceWorkspace m1 = Some sw" "sourceProject m1 = Some sp"
        "currentUser m1 = Some user" by blast
      obtain x2 c2 where g: "GetProjectTimeEntries srv (Workspace_ID sw) (Project_ID sp)
          (User_ID user) c1 = (x2, c2)" by fastforce
      from GetProjectTimeEntries_calls [OF g] obtain ps where
        c2: "c2 = c1 @ map (GetTimeEntriesCall (Workspace_ID sw) (User_ID user)) ps" by blast
      have g2: "?goal m c m1 c2"
        using k1 s1 c2 by (simp add: no_create_in_pages)
      show ?thesis
      proof (cases x2)
        case (Inl err)
        with run i Ok p g have "m' = m1" "c' = c2"
          by (simp_all add: ExecuteMigration_def orReturn_def)
        with g2 show ?thesis by simp
      next
        case (Inr timeEntries)
        obtain x3 m3 c3 where pt: "processTimeEntries srv timeEntries 0 m1 c2 = (x3, m3, c3)"
          using prod_cases3 by blast
        from processTimeEntries_spec [OF pt] obtain k3 where
          e3: "extends m1 m3" and k3: "c3 = c2 @ k3"
            "DryRun (config m1) \<longrightarrow>
               filter isCreateOrDelete k3 = [] \<and>
               TimeEntriesCreated (stats m3) = TimeEntriesCreated (stats m1) \<and>
               ProjectsCreated (stats m3) = ProjectsCreated (stats m1) \<and>
               TasksCreated (stats m3) = TasksCreated (stats m1) \<and>
               ClientsCreated (stats m3) = ClientsCreated (stats m1)"
          by blast
        from e3 have cfg3: "config m3 = config m1" by (simp add: extends_def)
        have c3: "c3 = c @ (k1 @ map (GetTimeEntriesCall (Workspace_ID sw) (User_ID user)) ps @ k3)"
          using k1 c2 k3 by simp
        have g3: "?goal m c m3 c3"
          using cfg3 s1 k1 k3 c3 by (simp add: no_create_in_pages)
        have "(m' = m3 \<or> m' = m3\<lparr>stats := (stats m3)\<lparr>EndTime := now\<rparr>\<rparr>) \<and> c' = c3"
          using run i Ok p g Inr pt
          by (cases x3) (simp_all add: ExecuteMigration_def orReturn_def)
        with g3 show ?thesis by auto
      qed
    qed
  next
    case (Err e)
    with run i have "m' = m1" "c' = c1" by (simp_all add: ExecuteMigration_def orReturn_def)
    with g1 show ?thesis by simp
  next
    case Panic
    with run i have "m' = m1" "c' = c1" by (simp_all add: ExecuteMigration_def orReturn_def)
    with g1 show ?thesis by simp
  next
    case Hang
    with run i have "m' = m1" "c' = c1" by (simp_all add: ExecuteMigration_def orReturn_def)
    with g1 show ?thesis by simp
  qed
qed

text \<open>
  C10.  A time entry whose task ID is empty fails with the error \<open>empty task ID\<close>
  before any request is sent (the client and the service are unchanged), and the batch
  records the error and goes on with the remaining entries.
\<close>

theorem empty_task_ID:
  "TimeEntry_TaskID entry = [] \<longrightarrow>
     processTimeEntry srv entry m c = (Err ''failed to get source task: empty task ID'', m, c) \<and>
     processBatch srv (entry # timeEntries) m c =
       processBatch srv timeEntries
         (m\<lparr>stats := (stats m)\<lparr>Errors := Errors (stats m) @
              [''Failed to process entry '' @ TimeEntry_ID entry @
               '': failed to get source task: empty task ID'']\<rparr>\<rparr>) c"
proof
  assume e: "TimeEntry_TaskID entry = []"
  have p: "processTimeEntry srv entry m c =
             (Err ''failed to get source task: empty task ID'', m, c)"
    by (simp add: processTimeEntry_def getSourceTask_def orReturn_def e)
  show "processTimeEntry srv entry m c = (Err ''failed to get source task: empty task ID'', m, c) \<and>
     processBatch srv (entry # timeEntries) m c =
       processBatch srv timeEntries
         (m\<lparr>stats := (stats m)\<lparr>Errors := Errors (stats m) @
              [''Failed to process entry '' @ TimeEntry_ID entry @
               '': failed to get source task: empty task ID'']\<rparr>\<rparr>) c"
    by (simp add: p)
qed

theorem empty_task_ID_witness:
  "processTimeEntry demoRemote (demoEntry ''e9'' []) (NewMigrationService (demoConfig False) 1) [] =
     (Err ''failed to get source task: empty task ID'', NewMigrationService (demoConfig False) 1, []) \<and>
   processBatch demoRemote [demoEntry ''e9'' []] (NewMigrationService (demoConfig False) 1) [] =
     (Ok (),
      (NewMigrationService (demoConfig False) 1)
        \<lparr>stats := (stats (NewMigrationService (demoConfig False) 1))
           \<lparr>Errors := [''Failed to process entry e9: failed to get source task: empty task ID'']\<rparr>\<rparr>,
      [])"
proof -
  have a: "TimeEntry_TaskID (demoEntry ''e9'' []) = []"
    and b: "TimeEntry_ID (demoEntry ''e9'' []) = ''e9''"
    by (simp_all add: demoEntry_def)
  have c: "Errors (stats (NewMigrationService (demoConfig False) 1)) = []"
    by (simp add: NewMigrationService_def Let_def)
  from a empty_task_ID [of "demoEntry ''e9'' []" demoRemote
      "NewMigrationService (demoConfig False) 1" "[]" "[]"]
  show ?thesis by (simp add: b c)
qed

lemma ExecuteMigration_phases:
  assumes "initializeWorkspaces srv m c = (Ok (), m1, c1)"
    and "sourceWorkspace m1 = Some sw" "sourceProject m1 = Some sp" "currentUser m1 = Some user"
    and "GetProjectTimeEntries srv (Workspace_ID sw) (Project_ID sp) (User_ID user) c1 =
           (Inr timeEntries, c2)"
    and "processTimeEntries srv timeEntries 0 m1 c2 = (Ok (), m3, c3)"
  shows "ExecuteMigration srv now m c = (Ok (), m3\<lparr>stats := (stats m3)\<lparr>EndTime := now\<rparr>\<rparr>, c3)"
  using assms by (simp add: ExecuteMigration_def orReturn_def)

lemma failed_or_succeeded_count:
  "\<forall>x\<in>set xs. failed x \<or> succeeded x \<Longrightarrow>
   length (filter failed xs) + length (filter succeeded xs) = length xs"
proof (induction xs)
  case Nil
  show ?case by simp
next
  case (Cons x xs)
  then show ?case by (cases x) simp_all
qed

text \<open>
  Isolation of error returns.  Take a run on a new service whose initialisation succeeds
  and whose fetch returns the \<open>N\<close> entries \<open>timeEntries\<close>.  If, processed in order, every
  entry either returns an error or returns \<open>nil\<close> (none panics), and exactly one returns an
  error, then \<open>ExecuteMigration\<close> completes without error, the count of processed
  entries is \<open>N - 1\<close>, the \<open>N - 1\<close> other entries are the ones that succeeded, and the
  recorded errors are exactly one line, naming the failing entry and its error.
\<close>

lemma partial_failure_isolation:
  "initializeWorkspaces srv (NewMigrationService cfg t0) c = (Ok (), m1, c1) \<and>
   sourceWorkspace m1 = Some sw \<and> sourceProject m1 = Some sp \<and> currentUser m1 = Some user \<and>
   GetProjectTimeEntries srv (Workspace_ID sw) (Project_ID sp) (User_ID user) c1 =
     (Inr timeEntries, c2) \<and>
   (\<forall>x\<in>set (entryOutcomes srv timeEntries m1 c2). failed x \<or> succeeded x) \<and>
   length (filter failed (entryOutcomes srv timeEntries m1 c2)) = 1 \<longrightarrow>
   (\<exists>m' c'. ExecuteMigration srv now (NewMigrationService cfg t0) c = (Ok (), m', c') \<and>
      TimeEntriesProcessed (stats m') = int (length timeEntries) - 1 \<and>
      Errors (stats m') = errorLines timeEntries (entryOutcomes srv timeEntries m1 c2) \<and>
      length (Errors (stats m')) = 1 \<and>
      length (filter succeeded (entryOutcomes srv timeEntries m1 c2)) = length timeEntries - 1)"
proof
  let ?m0 = "NewMigrationService cfg t0"
  let ?outs = "entryOutcomes srv timeEntries m1 c2"
  assume a: "initializeWorkspaces srv ?m0 c = (Ok (), m1, c1) \<and>
   sourceWorkspace m1 = Some sw \<and> sourceProject m1 = Some sp \<and> currentUser m1 = Some user \<and>
   GetProjectTimeEntries srv (Workspace_ID sw) (Project_ID sp) (User_ID user) c1 =
     (Inr timeEntries, c2) \<and>
   (\<forall>x\<in>set ?outs. failed x \<or> succeeded x) \<and>
   length (filter failed ?outs) = 1"
  then have init: "initializeWorkspaces srv ?m0 c = (Ok (), m1, c1)"
    and all: "\<forall>x\<in>set ?outs. failed x \<or> succeeded x"
    and one: "length (filter failed ?outs) = 1"
    by blast+
  from initializeWorkspaces_spec [OF init] have "initFrame ?m0 c m1 c1" by simp
  then have s1: "config m1 = config ?m0" "stats m1 = stats ?m0"
    by (simp_all add: initFrame_def)
  have pos: "0 < BatchSize (config m1)"
    unfolding s1 by (simp add: NewMigrationService_config)
  have zero: "TimeEntriesProcessed (stats m1) = 0" "Errors (stats m1) = []"
    unfolding s1 by (simp_all add: NewMigrationService_def Let_def)
  from processBatch_outcomes [OF all] obtain m3 c3 where
    pb: "processBatch srv timeEntries m1 c2 = (Ok (), m3, c3)"
    and n: "TimeEntriesProcessed (stats m3) =
       TimeEntriesProcessed (stats m1) + int (length (filter succeeded ?outs))"
    and e: "Errors (stats m3) = Errors (stats m1) @ errorLines timeEntries ?outs"
    and l: "length ?outs = length timeEntries"
    and le: "length (errorLines timeEntries ?outs) = length (filter failed ?outs)"
    by blast
  have "length (filter failed ?outs) + length (filter succeeded ?outs) = length ?outs"
    by (rule failed_or_succeeded_count [OF all])
  with one l have succ: "length (filter succeeded ?outs) = length timeEntries - 1"
    by simp
  have ge: "1 \<le> length timeEntries"
    using one l length_filter_le [of failed ?outs] by simp
  have pt: "processTimeEntries srv timeEntries 0 m1 c2 = (Ok (), m3, c3)"
    using pb by (simp add: processTimeEntries_eq [OF pos])
  from a have run: "ExecuteMigration srv now ?m0 c =
      (Ok (), m3\<lparr>stats := (stats m3)\<lparr>EndTime := now\<rparr>\<rparr>, c3)"
    by (intro ExecuteMigration_phases [OF init _ _ _ _ pt]) blast+
  show "\<exists>m' c'. ExecuteMigration srv now ?m0 c = (Ok (), m', c') \<and>
      TimeEntriesProcessed (stats m') = int (length timeEntries) - 1 \<and>
      Errors (stats m') = errorLines timeEntries ?outs \<and>
      length (Errors (stats m')) = 1 \<and>
      length (filter succeeded ?outs) = length timeEntries - 1"
    unfolding run using n e le one succ zero ge by simp
qed

lemma partial_failure_isolation_witness:
  "\<exists>m' c'. ExecuteMigration demoRemote 99 (NewMigrationService (demoConfig False) 1) [] =
             (Ok (), m', c') \<and>
           TimeEntriesProcessed (stats m') = 2 \<and> length (Errors (stats m')) = 1"
proof -
  let ?I = "initializeWorkspaces demoRemote (NewMigrationService (demoConfig False) 1) []"
  let ?m1 = "fst (snd ?I)"
  let ?c1 = "snd (snd ?I)"
  let ?sw = "\<lparr>Workspace_ID = ''ws-s'', Workspace_Name = ''S''\<rparr>"
  let ?sp = "demoProject ''p-src'' ''Legacy''"
  let ?G = "GetProjectTimeEntries demoRemote (Workspace_ID ?sw) (Project_ID ?sp)
              (User_ID demoUser) ?c1"
  let ?es = "[demoEntry ''e1'' ''t1'', demoEntry ''e2'' ''t2'', demoEntry ''e3'' ''t1'']"
  have "fst ?I = Ok ()" by code_simp
  then have h1: "?I = (Ok (), ?m1, ?c1)" by (metis prod.collapse)
  have h2: "sourceWorkspace ?m1 = Some ?sw" by code_simp
  have h3: "sourceProject ?m1 = Some ?sp" by code_simp
  have h4: "currentUser ?m1 = Some demoUser" by code_simp
  have "fst ?G = Inr ?es" by code_simp
  then have h5: "?G = (Inr ?es, snd ?G)" by (metis prod.collapse)
  have h6: "\<forall>x\<in>set (entryOutcomes demoRemote ?es ?m1 (snd ?G)). failed x \<or> succeeded x"
    by code_simp
  have h7: "length (filter failed (entryOutcomes demoRemote ?es ?m1 (snd ?G))) = 1"
    by code_simp
  from partial_failure_isolation [of demoRemote "demoConfig False" 1 "[]" ?m1 ?c1 ?sw ?sp
      demoUser ?es "snd ?G" 99] h1 h2 h3 h4 h5 h6 h7
  obtain m' c' where
    "ExecuteMigration demoRemote 99 (NewMigrationService (demoConfig False) 1) [] = (Ok (), m', c')"
    "TimeEntriesProcessed (stats m') = int (length ?es) - 1"
    "length (Errors (stats m')) = 1"
    by blast
  then show ?thesis by auto
qed

text \<open>
  C1 fails on the code for an entry that fails by a panic.  \<open>createTargetTimeEntry\<close> reads
  \<open>sourceEntry.TimeInterval.Start\<close> without testing the pointer, in the dry run as in the
  real run, and \<open>processBatch\<close> recovers from no panic.  On the listing of
  \<open>nilIntervalRemote\<close>, three entries of which the second has no time interval and the
  third would be processed without error, the run does not complete: it panics at the
  second entry with one entry counted as processed (not two), no error recorded (not one)
  and one time entry created; the third entry is never reached.
\<close>

theorem partial_failure_nil_interval:
  "fst (ExecuteMigration nilIntervalRemote 99 (NewMigrationService (demoConfig False) 1) []) =
     Panic \<and>
   TimeEntriesProcessed (stats (fst (snd
     (ExecuteMigration nilIntervalRemote 99 (NewMigrationService (demoConfig False) 1) [])))) = 1 \<and>
   Errors (stats (fst (snd
     (ExecuteMigration nilIntervalRemote 99 (NewMigrationService (demoConfig False) 1) [])))) = [] \<and>
   TimeEntriesCreated (stats (fst (snd
     (ExecuteMigration nilIntervalRemote 99 (NewMigrationService (demoConfig False) 1) [])))) = 1 \<and>
   fst (processTimeEntry nilIntervalRemote (demoEntry ''e3'' ''t1'')
     (fst (snd (ExecuteMigration nilIntervalRemote 99 (NewMigrationService (demoConfig False) 1) [])))
     (snd (snd (ExecuteMigration nilIntervalRemote 99 (NewMigrationService (demoConfig False) 1) []))))
     = Ok () \<and>
   fst (ExecuteMigration nilIntervalRemote 99 (NewMigrationService (demoConfig True) 1) []) =
     Panic \<and>
   TimeEntriesProcessed (stats (fst (snd
     (ExecuteMigration nilIntervalRemote 99 (NewMigrationService (demoConfig True) 1) [])))) = 1 \<and>
   Errors (stats (fst (snd
     (ExecuteMigration nilIntervalRemote 99 (NewMigrationService (demoConfig True) 1) [])))) = []"
  by (intro conjI; code_simp)

text \<open>
  C9, as stated, fails: constructing the service writes the defaults into the caller's
  configuration.
\<close>

theorem config_mutation_counterexample:
  "BatchSize (demoConfig False) = 0 \<and>
   BatchSize (config (NewMigrationService (demoConfig False) 1)) = 50 \<and>
   DefaultClientName (demoConfig False) = [] \<and>
   DefaultClientName (config (NewMigrationService (demoConfig False) 1)) = ''Default Client''"
  by (simp add: demoConfig_def NewMigrationService_def Let_def)

text \<open>
  C9, amended.  Constructing the service changes the caller's configuration in two
  fields only and only to default them: a batch size that is not positive becomes 50,
  and an empty default client name becomes \<open>Default Client\<close>; a configuration with a
  positive batch size and a non-empty default client name is unchanged.
  \<open>ExecuteMigration\<close> never changes the configuration, however the run ends.
\<close>

theorem config_after_run:
  "config (NewMigrationService cfg t0) =
     cfg\<lparr>BatchSize := (if BatchSize cfg \<le> 0 then 50 else BatchSize cfg),
         DefaultClientName := (if DefaultClientName cfg = [] then ''Default Client''
                               else DefaultClientName cfg)\<rparr> \<and>
   (0 < BatchSize cfg \<and> DefaultClientName cfg \<noteq> [] \<longrightarrow> config (NewMigrationService cfg t0) = cfg) \<and>
   (ExecuteMigration srv now m c = (r, m', c') \<longrightarrow> config m' = config m)"
proof (intro conjI impI)
  show "config (NewMigrationService cfg t0) =
     cfg\<lparr>BatchSize := (if BatchSize cfg \<le> 0 then 50 else BatchSize cfg),
         DefaultClientName := (if DefaultClientName cfg = [] then ''Default Client''
                               else DefaultClientName cfg)\<rparr>"
    by (rule NewMigrationService_config)
next
  assume "0 < BatchSize cfg \<and> DefaultClientName cfg \<noteq> []"
  then show "config (NewMigrationService cfg t0) = cfg"
    by (simp add: NewMigrationService_config)
next
  assume "ExecuteMigration srv now m c = (r, m', c')"
  from ExecuteMigration_spec [OF this] show "config m' = config m" by simp
qed

theorem config_after_run_witness:
  "config (NewMigrationService mappedConfig 1) = mappedConfig \<and>
   config (fst (snd (ExecuteMigration demoRemote 99 (NewMigrationService mappedConfig 1) []))) =
     mappedConfig"
proof -
  have h: "0 < BatchSize mappedConfig \<and> DefaultClientName mappedConfig \<noteq> []"
    by (simp add: mappedConfig_def)
  have e: "ExecuteMigration demoRemote 99 (NewMigrationService mappedConfig 1) [] =
      (fst (ExecuteMigration demoRemote 99 (NewMigrationService mappedConfig 1) []),
       fst (snd (ExecuteMigration demoRemote 99 (NewMigrationService mappedConfig 1) [])),
       snd (snd (ExecuteMigration demoRemote 99 (NewMigrationService mappedConfig 1) [])))"
    by simp
  from config_after_run [of mappedConfig 1 demoRemote 99 "NewMigrationService mappedConfig 1" "[]"
      "fst (ExecuteMigration demoRemote 99 (NewMigrationService mappedConfig 1) [])"
      "fst (snd (ExecuteMigration demoRemote 99 (NewMigrationService mappedConfig 1) []))"
      "snd (snd (ExecuteMigration demoRemote 99 (NewMigrationService mappedConfig 1) []))"] h e
  show ?thesis by simp
qed

text \<open>
  C2, as stated, fails: on the same remote service a dry run leaves the counters of
  created projects and time entries at zero where the live run counts one and two, and
  the sentinel client of the dry run is not in the client cache, where the live run
  caches the client it created.
\<close>

theorem dry_run_counterexample:
  "ProjectsCreated (stats (fst (snd (ExecuteMigration demoRemote 99
      (NewMigrationService (demoConfig True) 1) [])))) = 0 \<and>
   ProjectsCreated (stats (fst (snd (ExecuteMigration demoRemote 99
      (NewMigrationService (demoConfig False) 1) [])))) = 1 \<and>
   TimeEntriesCreated (stats (fst (snd (ExecuteMigration demoRemote 99
      (NewMigrationService (demoConfig True) 1) [])))) = 0 \<and>
   TimeEntriesCreated (stats (fst (snd (ExecuteMigration demoRemote 99
      (NewMigrationService (demoConfig False) 1) [])))) = 2 \<and>
   targetClients (fst (snd (ExecuteMigration demoRemote 99
      (NewMigrationService (demoConfig True) 1) []))) ''Acme Client'' = None \<and>
   map_option Client_ID (targetClients (fst (snd (ExecuteMigration demoRemote 99
      (NewMigrationService (demoConfig False) 1) []))) ''Acme Client'') = Some ''c-new''"
  by code_simp

text \<open>
  C2, amended.  In a run with \<open>DryRun\<close> set, however it ends, the client sends no
  request that creates or deletes anything, and the four counters of created entities
  stay at zero.  A project or a task that a resolution returns, sentinel or real, is
  in its cache under the key a real entity has: the project name, and the project ID,
  a slash and the task name.
\<close>

theorem dry_run_invariant:
  "(DryRun cfg \<and> ExecuteMigration srv now (NewMigrationService cfg t0) c = (r, m', c') \<longrightarrow>
      (\<exists>calls. c' = c @ calls \<and> filter isCreateOrDelete calls = []) \<and>
      TimeEntriesCreated (stats m') = 0 \<and> ProjectsCreated (stats m') = 0 \<and>
      TasksCreated (stats m') = 0 \<and> ClientsCreated (stats m') = 0) \<and>
   (getOrCreateProject srv projectName clientID m1 c1 = (Ok project, m2, c2) \<longrightarrow>
      targetProjects m2 projectName = Some project) \<and>
   (getOrCreateTask srv projectID taskName m1 c1 = (Ok task, m3, c3) \<longrightarrow>
      targetTasks m3 (projectID @ ''/'' @ taskName) = Some task)"
proof (intro conjI impI)
  assume a: "DryRun cfg \<and> ExecuteMigration srv now (NewMigrationService cfg t0) c = (r, m', c')"
  then have d: "DryRun (config (NewMigrationService cfg t0))"
    by (simp add: NewMigrationService_config)
  have z: "TimeEntriesCreated (stats (NewMigrationService cfg t0)) = 0"
    "ProjectsCreated (stats (NewMigrationService cfg t0)) = 0"
    "TasksCreated (stats (NewMigrationService cfg t0)) = 0"
    "ClientsCreated (stats (NewMigrationService cfg t0)) = 0"
    by (simp_all add: NewMigrationService_def Let_def)
  from a have "ExecuteMigration srv now (NewMigrationService cfg t0) c = (r, m', c')" by simp
  from ExecuteMigration_spec [OF this] d z
  show "\<exists>calls. c' = c @ calls \<and> filter isCreateOrDelete calls = []"
    and "TimeEntriesCreated (stats m') = 0" and "ProjectsCreated (stats m') = 0"
    and "TasksCreated (stats m') = 0" and "ClientsCreated (stats m') = 0"
    by auto
next
  assume "getOrCreateProject srv projectName clientID m1 c1 = (Ok project, m2, c2)"
  from getOrCreateProject_spec [OF this] show "targetProjects m2 projectName = Some project"
    by simp
next
  assume "getOrCreateTask srv projectID taskName m1 c1 = (Ok task, m3, c3)"
  from getOrCreateTask_spec [OF this]
  show "targetTasks m3 (projectID @ ''/'' @ taskName) = Some task"
    by simp
qed

theorem dry_run_invariant_witness:
  "filter isCreateOrDelete
     (snd (snd (ExecuteMigration demoRemote 99 (NewMigrationService (demoConfig True) 1) []))) = [] \<and>
   ProjectsCreated (stats (fst (snd (ExecuteMigration demoRemote 99
      (NewMigrationService (demoConfig True) 1) [])))) = 0"
proof -
  let ?X = "ExecuteMigration demoRemote 99 (NewMigrationService (demoConfig True) 1) []"
  have h: "DryRun (demoConfig True) \<and> ?X = (fst ?X, fst (snd ?X), snd (snd ?X))"
    by (simp add: demoConfig_def)
  from dry_run_invariant [of "demoConfig True" demoRemote 99 1 "[]" "fst ?X" "fst (snd ?X)"
      "snd (snd ?X)"] h
  show ?thesis by auto
qed

section \<open>Resolution: properties\<close>

lemma resolveAll_extends:
  "resolveAll srv ops m c = (m', c') \<Longrightarrow> extends m m'"
proof (induction srv ops m c rule: resolveAll.induct)
  case (1 srv m c)
  then show ?case by simp
next
  case (2 srv clientName rest m c)
  obtain r m1 c1 where g: "getOrCreateClient srv clientName m c = (r, m1, c1)"
    using prod_cases3 by blast
  from getOrCreateClient_spec [OF g] have "extends m m1" by (simp add: frame_def)
  moreover from "2.IH" [OF g [symmetric] refl] "2.prems" g have "extends m1 m'" by simp
  ultimately show ?case by (rule extends_trans)
next
  case (3 srv projectName clientID rest m c)
  obtain r m1 c1 where g: "getOrCreateProject srv projectName clientID m c = (r, m1, c1)"
    using prod_cases3 by blast
  from getOrCreateProject_spec [OF g] have "extends m m1" by (simp add: frame_def)
  moreover from "3.IH" [OF g [symmetric] refl] "3.prems" g have "extends m1 m'" by simp
  ultimately show ?case by (rule extends_trans)
next
  case (4 srv projectID taskName rest m c)
  obtain r m1 c1 where g: "getOrCreateTask srv projectID taskName m c = (r, m1, c1)"
    using prod_cases3 by blast
  from getOrCreateTask_spec [OF g] have "extends m m1" by (simp add: frame_def)
  moreover from "4.IH" [OF g [symmetric] refl] "4.prems" g have "extends m1 m'" by simp
  ultimately show ?case by (rule extends_trans)
qed

lemma extends_caches:
  assumes "extends m m'"
  shows "targetProjects m k = Some p \<Longrightarrow> targetProjects m' k = Some p"
    and "targetTasks m k = Some t \<Longrightarrow> targetTasks m' k = Some t"
    and "targetClients m k = Some cl \<Longrightarrow> targetClients m' k = Some cl"
  using assms unfolding extends_def map_le_def by (metis domI)+

text \<open>
  C3, as stated, fails: when the remote service refuses to create the project, the
  first resolution of the name fails and caches nothing, and the second resolution of
  the same name sends a second create request.
\<close>

theorem resolution_idempotence_counterexample:
  "fst (getOrCreateProject flakyRemote ''Acme'' ''c-new'' readyService readyClient) =
     Err ''503 Service Unavailable'' \<and>
   filter isCreateOrDelete
     (snd (snd (getOrCreateProject flakyRemote ''Acme'' ''c-new''
        (fst (snd (getOrCreateProject flakyRemote ''Acme'' ''c-new'' readyService readyClient)))
        (snd (snd (getOrCreateProject flakyRemote ''Acme'' ''c-new'' readyService readyClient)))))) =
     [CreateProjectCall ''ws-t'' ''Acme'', CreateProjectCall ''ws-t'' ''Acme'']"
  by code_simp

text \<open>
  C3, amended.  Once a resolution of a project name has succeeded, every later
  resolution of that name in the run, after any sequence of client, project and task
  resolutions, is a cache hit: it sends no request, changes nothing and returns the
  same project.  The same holds for a task under its key (project ID, a slash, task
  name) and, when the run is not a dry run, for a client name.  Every single
  resolution sends at most one request that creates.
\<close>

theorem resolution_idempotence:
  "(getOrCreateProject srv projectName clientID m c = (Ok project, m1, c1) \<and>
    resolveAll srv ops m1 c1 = (m2, c2) \<longrightarrow>
      getOrCreateProject srv projectName clientID' m2 c2 = (Ok project, m2, c2)) \<and>
   (getOrCreateTask srv projectID taskName m c = (Ok task, m3, c3) \<and>
    resolveAll srv ops m3 c3 = (m4, c4) \<longrightarrow>
      getOrCreateTask srv projectID taskName m4 c4 = (Ok task, m4, c4)) \<and>
   (\<not> DryRun (config m) \<and> getOrCreateClient srv clientName m c = (Ok client, m5, c5) \<and>
    resolveAll srv ops m5 c5 = (m6, c6) \<longrightarrow>
      getOrCreateClient srv clientName m6 c6 = (Ok client, m6, c6)) \<and>
   (getOrCreateProject srv projectName clientID m c = (r, m1, c1) \<longrightarrow>
      length (filter isCreateOrDelete c1) \<le> Suc (length (filter isCreateOrDelete c))) \<and>
   (getOrCreateTask srv projectID taskName m c = (r', m3, c3) \<longrightarrow>
      length (filter isCreateOrDelete c3) \<le> Suc (length (filter isCreateOrDelete c))) \<and>
   (getOrCreateClient srv clientName m c = (r'', m5, c5) \<longrightarrow>
      length (filter isCreateOrDelete c5) \<le> Suc (length (filter isCreateOrDelete c)))"
proof (intro conjI impI)
  assume a: "getOrCreateProject srv projectName clientID m c = (Ok project, m1, c1) \<and>
    resolveAll srv ops m1 c1 = (m2, c2)"
  then have "targetProjects m1 projectName = Some project"
    using getOrCreateProject_spec by blast
  moreover from a have "extends m1 m2" using resolveAll_extends by blast
  ultimately have "targetProjects m2 projectName = Some project"
    by (rule extends_caches(1) [rotated])
  then show "getOrCreateProject srv projectName clientID' m2 c2 = (Ok project, m2, c2)"
    by (rule getOrCreateProject_hit)
next
  assume a: "getOrCreateTask srv projectID taskName m c = (Ok task, m3, c3) \<and>
    resolveAll srv ops m3 c3 = (m4, c4)"
  then have "targetTasks m3 (projectID @ ''/'' @ taskName) = Some task"
    using getOrCreateTask_spec by blast
  moreover from a have "extends m3 m4" using resolveAll_extends by blast
  ultimately have "targetTasks m4 (projectID @ ''/'' @ taskName) = Some task"
    by (rule extends_caches(2) [rotated])
  then show "getOrCreateTask srv projectID taskName m4 c4 = (Ok task, m4, c4)"
    by (rule getOrCreateTask_hit)
next
  assume a: "\<not> DryRun (config m) \<and> getOrCreateClient srv clientName m c = (Ok client, m5, c5) \<and>
    resolveAll srv ops m5 c5 = (m6, c6)"
  then have "targetClients m5 clientName = Some client"
    using getOrCreateClient_spec by blast
  moreover from a have "extends m5 m6" using resolveAll_extends by blast
  ultimately have "targetClients m6 clientName = Some client"
    by (rule extends_caches(3) [rotated])
  then show "getOrCreateClient srv clientName m6 c6 = (Ok client, m6, c6)"
    by (rule getOrCreateClient_hit)
next
  assume "getOrCreateProject srv projectName clientID m c = (r, m1, c1)"
  from getOrCreateProject_spec [OF this]
  show "length (filter isCreateOrDelete c1) \<le> Suc (length (filter isCreateOrDelete c))" by simp
next
  assume "getOrCreateTask srv projectID taskName m c = (r', m3, c3)"
  from getOrCreateTask_spec [OF this]
  show "length (filter isCreateOrDelete c3) \<le> Suc (length (filter isCreateOrDelete c))" by simp
next
  assume "getOrCreateClient srv clientName m c = (r'', m5, c5)"
  from getOrCreateClient_spec [OF this]
  show "length (filter isCreateOrDelete c5) \<le> Suc (length (filter isCreateOrDelete c))" by simp
qed

theorem resolution_idempotence_witness:
  "getOrCreateProject demoRemote ''Acme'' ''another client''
     (fst (resolveAll demoRemote [ResolveClient ''Acme Client'', ResolveTask ''p-new'' ''TASK 42'']
        (fst (snd (getOrCreateProject demoRemote ''Acme'' ''c-new'' readyService readyClient)))
        (snd (snd (getOrCreateProject demoRemote ''Acme'' ''c-new'' readyService readyClient)))))
     (snd (resolveAll demoRemote [ResolveClient ''Acme Client'', ResolveTask ''p-new'' ''TASK 42'']
        (fst (snd (getOrCreateProject demoRemote ''Acme'' ''c-new'' readyService readyClient)))
        (snd (snd (getOrCreateProject demoRemote ''Acme'' ''c-new'' readyService readyClient))))) =
   (Ok (demoProject ''p-new'' ''Acme''),
    fst (resolveAll demoRemote [ResolveClient ''Acme Client'', ResolveTask ''p-new'' ''TASK 42'']
        (fst (snd (getOrCreateProject demoRemote ''Acme'' ''c-new'' readyService readyClient)))
        (snd (snd (getOrCreateProject demoRemote ''Acme'' ''c-new'' readyService readyClient)))),
    snd (resolveAll demoRemote [ResolveClient ''Acme Client'', ResolveTask ''p-new'' ''TASK 42'']
        (fst (snd (getOrCreateProject demoRemote ''Acme'' ''c-new'' readyService readyClient)))
        (snd (snd (getOrCreateProject demoRemote ''Acme'' ''c-new'' readyService readyClient)))))"
proof -
  let ?R = "getOrCreateProject demoRemote ''Acme'' ''c-new'' readyService readyClient"
  let ?A = "resolveAll demoRemote [ResolveClient ''Acme Client'', ResolveTask ''p-new'' ''TASK 42'']
        (fst (snd ?R)) (snd (snd ?R))"
  have "fst ?R = Ok (demoProject ''p-new'' ''Acme'')" by code_simp
  then have h1: "?R = (Ok (demoProject ''p-new'' ''Acme''), fst (snd ?R), snd (snd ?R))"
    by (metis prod.collapse)
  have h2: "?A = (fst ?A, snd ?A)" by simp
  from resolution_idempotence [of demoRemote "''Acme''" "''c-new''" readyService readyClient
      "demoProject ''p-new'' ''Acme''" "fst (snd ?R)" "snd (snd ?R)"
      "[ResolveClient ''Acme Client'', ResolveTask ''p-new'' ''TASK 42'']" "fst ?A" "snd ?A"
      "''another client''"] h1 h2
  show ?thesis by blast
qed

section \<open>The webhook service: properties\<close>

lemma createWebhooks_registry:
  "createWebhooks srv lowerTable draws s events k registry c = (Inr registry', c') \<Longrightarrow>
   dom registry' = dom registry \<union> set events"
proof (induction events arbitrary: k registry c)
  case Nil
  then show ?case by simp
next
  case (Cons event events)
  then show ?case
    by (auto simp: CreateWebhook_def split: sum.splits)
qed

lemma deleteWebhooks_spec:
  "deleteWebhooks srv workspaceID hooks totalErr ok c =
     (foldl Join totalErr (deletionErrors srv workspaceID hooks c),
      ok \<and> deletionErrors srv workspaceID hooks c = [],
      c @ map (\<lambda>webhook. DeleteWebhookCall workspaceID (Webhook_ID webhook)) hooks)"
proof (induction hooks arbitrary: totalErr ok c)
  case Nil
  show ?case by simp
next
  case (Cons webhook rest)
  show ?case
    by (cases "onDeleteWebhook srv c workspaceID (Webhook_ID webhook)")
      (simp_all add: DeleteWebhook_def Cons.IH)
qed

lemma registered_set:
  "rangesOver order (dom registry) \<Longrightarrow> set (List.map_filter registry order) = ran registry"
  by (force simp: rangesOver_def List.map_filter_def ran_def dom_def)

lemma Delete_spec:
  "Delete srv order s c =
     (if deletionErrors srv (Workspace_ID (workspace s))
           (List.map_filter (webhooks s) order) c = [] then None
      else Some (foldl Join ErrDeleteWebhook
                   (deletionErrors srv (Workspace_ID (workspace s))
                      (List.map_filter (webhooks s) order) c)),
      s,
      c @ map (\<lambda>webhook. DeleteWebhookCall (Workspace_ID (workspace s)) (Webhook_ID webhook))
            (List.map_filter (webhooks s) order))"
  by (simp add: Delete_def deleteWebhooks_spec)

lemma Create_failed:
  "Create srv lowerTable draws order s c = (Some err, s', c') \<Longrightarrow> s' = s"
  by (auto simp: Create_def split: prod.splits sum.splits)

lemma Delete_nothing: "webhooks s = Map.empty \<Longrightarrow> Delete srv order s c = (None, s, c)"
  by (simp add: Delete_spec List.map_filter_def)

lemma demo_Create_fails:
  "fst (Create demoRemote (\<lambda>r. r) (\<lambda>i. i) supportedEvents demoWebhookService []) =
     Some ''failed to create webhook: 429 Too Many Requests''"
  by code_simp

lemma demo_Create_service:
  "fst (snd (Create demoRemote (\<lambda>r. r) (\<lambda>i. i) supportedEvents demoWebhookService [])) =
     demoWebhookService"
proof -
  let ?F = "Create demoRemote (\<lambda>r. r) (\<lambda>i. i) supportedEvents demoWebhookService []"
  from demo_Create_fails
  have "?F = (Some ''failed to create webhook: 429 Too Many Requests'', fst (snd ?F), snd (snd ?F))"
    by (metis prod.collapse)
  then show ?thesis by (rule Create_failed)
qed

text \<open>
  C6, as stated, fails: the program does not tear down the webhooks that a partially failed
  \<open>Create\<close> has made. With a remote that accepts two webhooks and rejects the third with
  \<open>429 Too Many Requests\<close>, \<open>Create\<close> returns the creation failure after having sent three
  creation requests; the service it leaves behind has the registry it had before (empty),
  and \<open>Delete\<close> on it sends no deletion request at all and returns nil.
\<close>

theorem webhook_teardown_counterexample:
  "fst (Create demoRemote (\<lambda>r. r) (\<lambda>i. i) supportedEvents demoWebhookService []) =
     Some ''failed to create webhook: 429 Too Many Requests'' \<and>
   map WebhookRequest_Event
     (concat (map (\<lambda>k. case k of CreateWebhookCall ws r \<Rightarrow> [r] | _ \<Rightarrow> [])
        (snd (snd (Create demoRemote (\<lambda>r. r) (\<lambda>i. i) supportedEvents
                     demoWebhookService []))))) =
     [''NEW_TIMER_STARTED'', ''TIMER_STOPPED'', ''NEW_CLIENT''] \<and>
   Delete demoRemote supportedEvents
     (fst (snd (Create demoRemote (\<lambda>r. r) (\<lambda>i. i) supportedEvents demoWebhookService [])))
     (snd (snd (Create demoRemote (\<lambda>r. r) (\<lambda>i. i) supportedEvents demoWebhookService []))) =
   (None,
    fst (snd (Create demoRemote (\<lambda>r. r) (\<lambda>i. i) supportedEvents demoWebhookService [])),
    snd (snd (Create demoRemote (\<lambda>r. r) (\<lambda>i. i) supportedEvents demoWebhookService [])))"
proof (intro conjI)
  show "fst (Create demoRemote (\<lambda>r. r) (\<lambda>i. i) supportedEvents demoWebhookService []) =
     Some ''failed to create webhook: 429 Too Many Requests''"
    by (rule demo_Create_fails)
  show "map WebhookRequest_Event
     (concat (map (\<lambda>k. case k of CreateWebhookCall ws r \<Rightarrow> [r] | _ \<Rightarrow> [])
        (snd (snd (Create demoRemote (\<lambda>r. r) (\<lambda>i. i) supportedEvents
                     demoWebhookService []))))) =
     [''NEW_TIMER_STARTED'', ''TIMER_STOPPED'', ''NEW_CLIENT'']"
    by code_simp
  have "webhooks demoWebhookService = Map.empty"
    by (simp add: demoWebhookService_def NewWorkspaceWebhookService_def)
  then show "Delete demoRemote supportedEvents
     (fst (snd (Create demoRemote (\<lambda>r. r) (\<lambda>i. i) supportedEvents demoWebhookService [])))
     (snd (snd (Create demoRemote (\<lambda>r. r) (\<lambda>i. i) supportedEvents demoWebhookService []))) =
   (None,
    fst (snd (Create demoRemote (\<lambda>r. r) (\<lambda>i. i) supportedEvents demoWebhookService [])),
    snd (snd (Create demoRemote (\<lambda>r. r) (\<lambda>i. i) supportedEvents demoWebhookService [])))"
    unfolding demo_Create_service by (rule Delete_nothing)
qed

text \<open>
  C6, amended. A \<open>Create\<close> that fails leaves the service as it was: the registry is assigned
  only when every webhook has been created, and then it holds exactly the five supported
  events. A \<open>Delete\<close> sends one deletion request for each webhook of the registry, in the order
  of the iteration, and for no other webhook; it leaves the service unchanged, returns nil
  when every deletion succeeds and otherwise \<open>ErrDeleteWebhook\<close> joined with the deletion
  failures, never a creation failure. On an empty registry it returns nil and sends nothing.
\<close>

theorem webhook_teardown:
  "(Create srv lowerTable draws order s c = (Some err, s', c') \<longrightarrow> s' = s) \<and>
   (rangesOver order (set supportedEvents) \<and>
    Create srv lowerTable draws order s c = (None, s', c') \<longrightarrow>
      dom (webhooks s') = set supportedEvents \<and> workspace s' = workspace s \<and> url s' = url s) \<and>
   (rangesOver order' (dom (webhooks s)) \<and> Delete srv order' s c = (r, s'', c'') \<longrightarrow>
      s'' = s \<and>
      c'' = c @ map (\<lambda>webhook. DeleteWebhookCall (Workspace_ID (workspace s)) (Webhook_ID webhook))
                  (List.map_filter (webhooks s) order') \<and>
      set (List.map_filter (webhooks s) order') = ran (webhooks s) \<and>
      r = (if deletionErrors srv (Workspace_ID (workspace s))
                (List.map_filter (webhooks s) order') c = [] then None
           else Some (foldl Join ErrDeleteWebhook
                        (deletionErrors srv (Workspace_ID (workspace s))
                           (List.map_filter (webhooks s) order') c)))) \<and>
   (webhooks s = Map.empty \<longrightarrow> Delete srv order' s c = (None, s, c))"
proof (intro conjI; rule impI)
  assume "Create srv lowerTable draws order s c = (Some err, s', c')"
  then show "s' = s" by (rule Create_failed)
next
  assume a: "rangesOver order (set supportedEvents) \<and>
    Create srv lowerTable draws order s c = (None, s', c')"
  then obtain registry c1 where
    cw: "createWebhooks srv lowerTable draws s order 0 Map.empty c = (Inr registry, c1)"
    and s': "s' = s\<lparr>webhooks := registry\<rparr>"
    by (auto simp: Create_def split: prod.splits sum.splits)
  from createWebhooks_registry [OF cw] a have "dom registry = set supportedEvents"
    by (simp add: rangesOver_def)
  with s' show "dom (webhooks s') = set supportedEvents \<and> workspace s' = workspace s \<and>
      url s' = url s"
    by simp
next
  assume a: "rangesOver order' (dom (webhooks s)) \<and> Delete srv order' s c = (r, s'', c'')"
  then have d: "Delete srv order' s c = (r, s'', c'')" by simp
  from d have 1: "s'' = s" by (auto simp: Delete_spec)
  from d have 2: "c'' = c @ map (\<lambda>webhook. DeleteWebhookCall (Workspace_ID (workspace s))
                 (Webhook_ID webhook)) (List.map_filter (webhooks s) order')"
    by (auto simp: Delete_spec)
  from a have 3: "set (List.map_filter (webhooks s) order') = ran (webhooks s)"
    by (simp add: registered_set)
  from d have 4: "r = (if deletionErrors srv (Workspace_ID (workspace s))
                (List.map_filter (webhooks s) order') c = [] then None
           else Some (foldl Join ErrDeleteWebhook
                        (deletionErrors srv (Workspace_ID (workspace s))
                           (List.map_filter (webhooks s) order') c)))"
    by (auto simp: Delete_spec)
  from 1 2 3 4 show "s'' = s \<and>
      c'' = c @ map (\<lambda>webhook. DeleteWebhookCall (Workspace_ID (workspace s)) (Webhook_ID webhook))
                  (List.map_filter (webhooks s) order') \<and>
      set (List.map_filter (webhooks s) order') = ran (webhooks s) \<and>
      r = (if deletionErrors srv (Workspace_ID (workspace s))
                (List.map_filter (webhooks s) order') c = [] then None
           else Some (foldl Join ErrDeleteWebhook
                        (deletionErrors srv (Workspace_ID (workspace s))
                           (List.map_filter (webhooks s) order') c)))"
    by blast
next
  assume "webhooks s = Map.empty"
  then have "List.map_filter (webhooks s) order' = []"
    by (simp add: List.map_filter_def)
  then show "Delete srv order' s c = (None, s, c)"
    by (simp add: Delete_spec)
qed

text \<open>
  The amended C6 at concrete runs: the rejected \<open>Create\<close> of the scenario above, a \<open>Create\<close>
  that succeeds, and a \<open>Delete\<close> of a registry of two webhooks of which the second deletion
  fails.
\<close>

theorem webhook_teardown_witness:
  "fst (snd (Create demoRemote (\<lambda>r. r) (\<lambda>i. i) supportedEvents demoWebhookService [])) =
     demoWebhookService \<and>
   dom (webhooks (fst (snd (Create steadyRemote (\<lambda>r. r) (\<lambda>i. i) supportedEvents
                              demoWebhookService [])))) = set supportedEvents \<and>
   Delete steadyRemote [NewClientEvent, NewTagEvent] registeredService [] =
     (Some (''failed to delete webhook'' @ [CHR 0x0A] @ ''404 Not Found''), registeredService,
      [DeleteWebhookCall ''ws-t'' ''wh-NEW_CLIENT'', DeleteWebhookCall ''ws-t'' ''wh-NEW_TAG''])"
proof -
  let ?F = "Create demoRemote (\<lambda>r. r) (\<lambda>i. i) supportedEvents demoWebhookService []"
  let ?order = "[NewClientEvent, NewTagEvent]"
  let ?D = "Delete steadyRemote ?order registeredService []"
  from demo_Create_fails
  have f: "?F = (Some ''failed to create webhook: 429 Too Many Requests'',
                 fst (snd ?F), snd (snd ?F))"
    by (metis prod.collapse)
  note t1 = webhook_teardown [of demoRemote "\<lambda>r. r" "\<lambda>i. i" supportedEvents
      demoWebhookService "[]" "''failed to create webhook: 429 Too Many Requests''"
      "fst (snd ?F)" "snd (snd ?F)"]
  from t1 f have w1: "fst (snd ?F) = demoWebhookService" by blast
  let ?C = "Create steadyRemote (\<lambda>r. r) (\<lambda>i. i) supportedEvents demoWebhookService []"
  have "fst ?C = None" by code_simp
  then have c: "?C = (None, fst (snd ?C), snd (snd ?C))" by (metis prod.collapse)
  have rs: "rangesOver supportedEvents (set supportedEvents)"
    by (simp add: rangesOver_def supportedEvents_def NewTimerStartedEvent_def
        TimerStoppedEvent_def NewClientEvent_def NewProjectEvent_def NewTagEvent_def)
  note t2 = webhook_teardown [of steadyRemote "\<lambda>r. r" "\<lambda>i. i" supportedEvents
      demoWebhookService "[]" _ "fst (snd ?C)" "snd (snd ?C)"]
  from t2 rs c have w2: "dom (webhooks (fst (snd ?C))) = set supportedEvents" by blast
  have ro: "rangesOver ?order (dom (webhooks registeredService))"
    by (auto simp: rangesOver_def registeredService_def NewClientEvent_def NewTagEvent_def)
  define H where "H = List.map_filter (webhooks registeredService) ?order"
  define W where "W = Workspace_ID (workspace registeredService)"
  have hooks: "map (\<lambda>webhook. DeleteWebhookCall W (Webhook_ID webhook)) H =
                 [DeleteWebhookCall ''ws-t'' ''wh-NEW_CLIENT'',
                  DeleteWebhookCall ''ws-t'' ''wh-NEW_TAG'']"
    unfolding H_def W_def by code_simp
  have e: "deletionErrors steadyRemote W H [] = [''404 Not Found'']"
    unfolding H_def W_def by code_simp
  have d: "?D = (fst ?D, fst (snd ?D), snd (snd ?D))" by simp
  note t3 = webhook_teardown [of steadyRemote _ _ _ registeredService "[]" _ _ _ ?order
      "fst ?D" "fst (snd ?D)" "snd (snd ?D)", folded H_def W_def]
  from t3 ro d have
    "fst (snd ?D) = registeredService"
    "snd (snd ?D) = [] @ map (\<lambda>webhook. DeleteWebhookCall W (Webhook_ID webhook)) H"
    "fst ?D = (if deletionErrors steadyRemote W H [] = [] then None
               else Some (foldl Join ErrDeleteWebhook (deletionErrors steadyRemote W H [])))"
    by blast+
  then have "fst (snd ?D) = registeredService"
    "snd (snd ?D) = [DeleteWebhookCall ''ws-t'' ''wh-NEW_CLIENT'',
                     DeleteWebhookCall ''ws-t'' ''wh-NEW_TAG'']"
    "fst ?D = Some (''failed to delete webhook'' @ [CHR 0x0A] @ ''404 Not Found'')"
    unfolding e hooks by (simp_all add: Join_def ErrDeleteWebhook_def)
  then have "?D = (Some (''failed to delete webhook'' @ [CHR 0x0A] @ ''404 Not Found''),
      registeredService,
      [DeleteWebhookCall ''ws-t'' ''wh-NEW_CLIENT'', DeleteWebhookCall ''ws-t'' ''wh-NEW_TAG''])"
    by (metis d)
  with w1 w2 show ?thesis by blast
qed

end
